theory Spec2Isabelle
  imports Main "HOL-Library.Sublist"
begin

section \<open>JavaScript strings and the regular expressions of the source\<close>

text \<open>
  Strings are lists of 8-bit code units. The white space class \<open>\s\<close> of a JavaScript
  regular expression, restricted to that range, is TAB, LF, VT, FF, CR, SPACE and NBSP;
  the line terminators, which the dot of a regular expression refuses, are LF and CR.
\<close>

definition is_space :: "char \<Rightarrow> bool" where
  "is_space c = (c \<in> set [CHR 0x09, CHR 0x0A, CHR 0x0B, CHR 0x0C, CHR 0x0D, CHR '' '', CHR 0xA0])"

definition is_line_terminator :: "char \<Rightarrow> bool" where
  "is_line_terminator c = (c \<in> set [CHR 0x0A, CHR 0x0D])"

text \<open>
  \<^verbatim>\<open>/\s+--diff/\<close> matched at the very start of a string: a non-empty run of white space,
  taken greedily, followed by the flag. Giving back part of the run never helps, since
  the character after a shorter run is white space and not a dash.
\<close>

definition flag_at :: "string \<Rightarrow> bool" where
  "flag_at s = (s \<noteq> [] \<and> is_space (hd s) \<and> prefix ''--diff'' (dropWhile is_space s))"

text \<open>
  \<^verbatim>\<open>scriptLine.replace(/\s+--diff/, '')\<close>: the expression has no \<open>g\<close> flag, so the
  leftmost match is replaced and the scan stops there.
\<close>

fun replace_diff_flag :: "string \<Rightarrow> string" where
  "replace_diff_flag [] = []"
| "replace_diff_flag (c # cs) =
     (if flag_at (c # cs) then drop 6 (dropWhile is_space (c # cs))
      else c # replace_diff_flag cs)"

text \<open>Whether some occurrence of the flag, preceded by white space, is left in a string.\<close>

fun contains_flag :: "string \<Rightarrow> bool" where
  "contains_flag [] = False"
| "contains_flag (c # cs) = (flag_at (c # cs) \<or> contains_flag cs)"

text \<open>
  The two exclusion expressions of \<open>applyTemplateDiff\<close> have the shape
  \<^verbatim>\<open>/(^|\/|\\)(a1|...|an)(\/|\\|$)/i\<close>. An alternative is a sequence of atoms: a literal
  character, compared up to case because of the \<open>i\<close> flag, or the dot.
\<close>

datatype atom = Lit char | AnyChar

definition canonicalize :: "char \<Rightarrow> char" where
  "canonicalize c =
     (case map_of (zip ''abcdefghijklmnopqrstuvwxyz'' ''ABCDEFGHIJKLMNOPQRSTUVWXYZ'') c of
        Some u \<Rightarrow> u
      | None \<Rightarrow> c)"

fun atom_match :: "atom \<Rightarrow> char \<Rightarrow> bool" where
  "atom_match (Lit l) c = (canonicalize c = canonicalize l)"
| "atom_match AnyChar c = (\<not> is_line_terminator c)"

fun match_atoms :: "atom list \<Rightarrow> string \<Rightarrow> string option" where
  "match_atoms [] s = Some s"
| "match_atoms (a # as) [] = None"
| "match_atoms (a # as) (c # cs) = (if atom_match a c then match_atoms as cs else None)"

definition is_sep :: "char \<Rightarrow> bool" where
  "is_sep c = (c = CHR ''/'' \<or> c = CHR 0x5C)"

text \<open>The group \<^verbatim>\<open>(\/|\\|$)\<close> after an alternative: a separator or the end of the input.\<close>

definition seg_end :: "string \<Rightarrow> bool" where
  "seg_end r = (case r of [] \<Rightarrow> True | c # _ \<Rightarrow> is_sep c)"

definition alt_here :: "atom list list \<Rightarrow> string \<Rightarrow> bool" where
  "alt_here alts s =
     list_ex (\<lambda>a. case match_atoms a s of None \<Rightarrow> False | Some r \<Rightarrow> seg_end r) alts"

text \<open>
  The scan over all start positions. The flag \<open>b\<close> says that the group \<^verbatim>\<open>(^|\/|\\)\<close>
  matches just before the current position: at the start of the input, or after a
  separator.
\<close>

fun re_scan :: "atom list list \<Rightarrow> bool \<Rightarrow> string \<Rightarrow> bool" where
  "re_scan alts b [] = (b \<and> alt_here alts [])"
| "re_scan alts b (c # cs) = ((b \<and> alt_here alts (c # cs)) \<or> re_scan alts (is_sep c) cs)"

definition re_test :: "atom list list \<Rightarrow> string \<Rightarrow> bool" where
  "re_test alts s = re_scan alts True s"

definition lit :: "string \<Rightarrow> atom list" where
  "lit s = map Lit s"

text \<open>
  \<^verbatim>\<open>/(^|\/|\\)(dist|node_modules|\.cache|\.turbo|\.shopify|CHANGELOG\.md)(\/|\\|$)/i\<close>,
  the expression of the template pass.
\<close>

definition template_exclude :: "atom list list" where
  "template_exclude =
     [lit ''dist'', lit ''node_modules'', lit ''.cache'', lit ''.turbo'', lit ''.shopify'',
      lit ''CHANGELOG.md'']"

text \<open>
  \<^verbatim>\<open>/(^|\/|\\)(dist|node_modules|\.cache|.turbo|package\.json|tsconfig\.json)(\/|\\|$)/i\<close>,
  the expression of the diff pass; the dot before \<open>turbo\<close> is not escaped there.
\<close>

definition diff_exclude :: "atom list list" where
  "diff_exclude =
     [lit ''dist'', lit ''node_modules'', lit ''.cache'', AnyChar # lit ''turbo'',
      lit ''package.json'', lit ''tsconfig.json'']"

section \<open>Package manifests\<close>

text \<open>
  A parsed \<open>package.json\<close>. The fields the code touches are optional objects from names
  to values; a value is a string unless the document says otherwise, which the code
  checks with \<open>typeof\<close> and with \<open>??\<close>. The reserved key \<open>h2:diff\<close> holds the diff options.
\<close>

datatype jsval = JNull | JBool bool | JNum int | JStr string

type_synonym jsobj = "string \<rightharpoonup> jsval"

record diff_options =
  skipFiles :: "string list option"
  skipDependencies :: "string list option"
  skipDevDependencies :: "string list option"

record pkg =
  dependencies :: "jsobj option"
  devDependencies :: "jsobj option"
  scripts :: "jsobj option"
  h2_diff :: "diff_options option"

definition no_options :: diff_options where
  "no_options = \<lparr>skipFiles = None, skipDependencies = None, skipDevDependencies = None\<rparr>"

definition cli_hydrogen :: string where
  "cli_hydrogen = ''@shopify/cli-hydrogen''"

text \<open>\<^verbatim>\<open>v ?? '*'\<close>: the fallback is taken for \<open>undefined\<close> and for \<open>null\<close>.\<close>

definition or_wildcard :: "jsval option \<Rightarrow> jsval" where
  "or_wildcard v = (case v of None \<Rightarrow> JStr ''*'' | Some JNull \<Rightarrow> JStr ''*'' | Some x \<Rightarrow> x)"

text \<open>
  The body of the loop over \<open>['build', 'dev', 'preview']\<close>: the script is rewritten when
  it is truthy and a string, that is, a non-empty string.
\<close>

definition strip_script :: "string \<Rightarrow> jsobj \<Rightarrow> jsobj" where
  "strip_script key sc =
     (case sc key of
        Some (JStr scriptLine) \<Rightarrow>
          if scriptLine \<noteq> [] then sc(key \<mapsto> JStr (replace_diff_flag scriptLine)) else sc
      | _ \<Rightarrow> sc)"

definition delete_keys :: "string list \<Rightarrow> jsobj \<Rightarrow> jsobj" where
  "delete_keys ks m = fold (\<lambda>k m'. m'(k := None)) ks m"

text \<open>
  The \<open>onResult\<close> callback that \<open>applyTemplateDiff\<close> hands to \<open>mergePackageJson\<close>; it
  closes over the template's manifest and the diff options, and receives the merged
  manifest.
\<close>

definition restore_cli_version :: "pkg \<Rightarrow> pkg \<Rightarrow> pkg" where
  "restore_cli_version templatePkgJson pkgJson =
     (case (dependencies pkgJson, dependencies templatePkgJson) of
        (Some deps, Some tdeps) \<Rightarrow>
          pkgJson\<lparr>dependencies := Some (deps(cli_hydrogen \<mapsto> or_wildcard (tdeps cli_hydrogen)))\<rparr>
      | _ \<Rightarrow> pkgJson)"

definition strip_scripts :: "pkg \<Rightarrow> pkg" where
  "strip_scripts pkgJson =
     (case scripts pkgJson of
        Some sc \<Rightarrow> pkgJson\<lparr>scripts := Some (fold strip_script [''build'', ''dev'', ''preview''] sc)\<rparr>
      | None \<Rightarrow> pkgJson)"

definition skip_dependencies :: "diff_options \<Rightarrow> pkg \<Rightarrow> pkg" where
  "skip_dependencies diffOptions pkgJson =
     (case (skipDependencies diffOptions, dependencies pkgJson) of
        (Some ds, Some deps) \<Rightarrow> pkgJson\<lparr>dependencies := Some (delete_keys ds deps)\<rparr>
      | _ \<Rightarrow> pkgJson)"

definition skip_dev_dependencies :: "diff_options \<Rightarrow> pkg \<Rightarrow> pkg" where
  "skip_dev_dependencies diffOptions pkgJson =
     (case (skipDevDependencies diffOptions, devDependencies pkgJson) of
        (Some ds, Some deps) \<Rightarrow> pkgJson\<lparr>devDependencies := Some (delete_keys ds deps)\<rparr>
      | _ \<Rightarrow> pkgJson)"

definition onResult :: "pkg \<Rightarrow> diff_options \<Rightarrow> pkg \<Rightarrow> pkg" where
  "onResult templatePkgJson diffOptions pkgJson =
     skip_dev_dependencies diffOptions
       (skip_dependencies diffOptions
         (strip_scripts (restore_cli_version templatePkgJson pkgJson)))"

section \<open>Paths\<close>

text \<open>
  An absolute, normalised path is the list of its names from the root down. A relative
  path, as \<open>relativePath\<close> returns it, is a list of steps: up to the parent, or down into
  a name. Both functions come from the path library of the CLI kit.
\<close>

type_synonym path = "string list"

datatype seg = Up | Name string

text \<open>
  \<open>relativePath(from, to)\<close> drops the longest common prefix of the two paths, climbs
  out of what is left of \<open>from\<close> and descends along what is left of \<open>to\<close>.
\<close>

fun strip_common :: "path \<Rightarrow> path \<Rightarrow> path \<times> path" where
  "strip_common (x # xs) (y # ys) = (if x = y then strip_common xs ys else (x # xs, y # ys))"
| "strip_common xs ys = (xs, ys)"

definition relativePath :: "path \<Rightarrow> path \<Rightarrow> seg list" where
  "relativePath from to =
     (case strip_common from to of (f, t) \<Rightarrow> map (\<lambda>_. Up) f @ map Name t)"

fun joinPath :: "path \<Rightarrow> seg list \<Rightarrow> path" where
  "joinPath p [] = p"
| "joinPath p (Up # r) = joinPath (butlast p) r"
| "joinPath p (Name n # r) = joinPath (p @ [n]) r"

text \<open>The string of a relative path, which the filter hands to the regular expression.\<close>

fun seg_string :: "seg \<Rightarrow> string" where
  "seg_string Up = ''..''"
| "seg_string (Name n) = n"

fun rel_string :: "seg list \<Rightarrow> string" where
  "rel_string [] = []"
| "rel_string [s] = seg_string s"
| "rel_string (s # t # ss) = seg_string s @ ''/'' @ rel_string (t # ss)"

text \<open>
  \<open>s.replace(pat, rep)\<close> with a string pattern replaces the first occurrence of the
  pattern in \<open>s\<close> by the expansion of \<open>rep\<close>, in which \<open>$$\<close> stands for a dollar sign,
  \<open>$&\<close> for the match, and \<open>$\<close> with a backquote or a quote for what precedes or
  follows the match; a pattern that does not occur leaves \<open>s\<close> as it is.
\<close>

fun expand_replacement :: "string \<Rightarrow> string \<Rightarrow> string \<Rightarrow> string \<Rightarrow> string" where
  "expand_replacement [] matched pre post = []"
| "expand_replacement [c] matched pre post = [c]"
| "expand_replacement (c # c' # r) matched pre post =
     (if c = CHR ''$'' \<and> c' = CHR ''$'' then CHR ''$'' # expand_replacement r matched pre post
      else if c = CHR ''$'' \<and> c' = CHR ''&'' then matched @ expand_replacement r matched pre post
      else if c = CHR ''$'' \<and> c' = CHR 0x60 then pre @ expand_replacement r matched pre post
      else if c = CHR ''$'' \<and> c' = CHR 0x27 then post @ expand_replacement r matched pre post
      else c # expand_replacement (c' # r) matched pre post)"

fun js_replace_from :: "string \<Rightarrow> string \<Rightarrow> string \<Rightarrow> string \<Rightarrow> string" where
  "js_replace_from pat rep pre [] =
     (if pat = [] then pre @ expand_replacement rep [] pre [] else pre)"
| "js_replace_from pat rep pre (c # cs) =
     (if prefix pat (c # cs) then
        pre @ expand_replacement rep pat pre (drop (length pat) (c # cs))
          @ drop (length pat) (c # cs)
      else js_replace_from pat rep (pre @ [c]) cs)"

definition js_replace :: "string \<Rightarrow> string \<Rightarrow> string \<Rightarrow> string" where
  "js_replace pat rep s = js_replace_from pat rep [] s"

text \<open>
  The callbacks apply \<open>replace\<close> to the path of an event and the paths of two
  directories, all three as strings. The string of an absolute path puts a slash before
  every name; the path a string names is the list of the non-empty runs between its
  slashes.
\<close>

definition path_string :: "path \<Rightarrow> string" where
  "path_string p = concat (map (\<lambda>n. CHR ''/'' # n) p)"

fun names_of :: "string \<Rightarrow> string \<Rightarrow> path" where
  "names_of cur [] = (if cur = [] then [] else [cur])"
| "names_of cur (c # cs) =
     (if c = CHR ''/'' then (if cur = [] then names_of [] cs else cur # names_of [] cs)
      else names_of (cur @ [c]) cs)"

definition parse_path :: "string \<Rightarrow> path" where
  "parse_path s = names_of [] s"

definition replace_path :: "path \<Rightarrow> path \<Rightarrow> path \<Rightarrow> path" where
  "replace_path pat rep p =
     parse_path (js_replace (path_string pat) (path_string rep) (path_string p))"

text \<open>
  \<open>createFilter(re, skipFiles)\<close> of \<open>applyTemplateDiff\<close>. The file name is taken relative
  to the template directory in both copy passes, also when the file lies in the diff
  directory.
\<close>

definition createFilter :: "path \<Rightarrow> atom list list \<Rightarrow> string list option \<Rightarrow> path \<Rightarrow> bool" where
  "createFilter templateDir re skip filepath =
     (let filename = rel_string (relativePath templateDir filepath)
      in \<not> re_test re filename \<and>
         \<not> (case skip of None \<Rightarrow> False | Some l \<Rightarrow> filename \<in> set l))"

section \<open>The file system and its primitives\<close>

text \<open>
  The file system maps a path to the node stored there. Looking a path up walks through
  its ancestors, which all have to be directories.
\<close>

datatype node = File string | Dir

type_synonym fs = "path \<rightharpoonup> node"

definition fs_lookup :: "fs \<Rightarrow> path \<Rightarrow> node option" where
  "fs_lookup fs p =
     (if list_all (\<lambda>q. fs q = Some Dir) (butlast (prefixes p)) then fs p else None)"

text \<open>
  The calls that change something outside the program, the errors, and the world the
  program runs in: the files, the calls issued so far, what was printed with
  \<open>console.error\<close>, and the rejections of promises that nothing awaits or catches.
\<close>

datatype fsop =
    OpCopy path path
  | OpRemove path
  | OpWrite path
  | OpRead path
  | OpUnsubscribe nat

datatype error = NotFound path | IOError fsop | ParseError path | WatcherError string

record world =
  files :: fs
  trace :: "fsop list"
  console :: "error list"
  unhandled :: "error list"

text \<open>
  What the program does not decide: which calls fail for a reason of their own
  (permissions, a node of the wrong kind in the way, a race), how far a failed call got,
  the JSON parser and printer, and where \<open>getStarterDir\<close> finds the starter template.
\<close>

record env =
  io_fails :: "fsop \<Rightarrow> bool"
  io_partial :: "fsop \<Rightarrow> path \<Rightarrow> bool"
  json_parse :: "string \<Rightarrow> pkg option"
  json_print :: "pkg \<Rightarrow> string"
  getStarterDir :: path

type_synonym 'a result = "(error + 'a) \<times> world"

definition issue :: "fsop \<Rightarrow> world \<Rightarrow> world" where
  "issue op w = w\<lparr>trace := trace w @ [op]\<rparr>"

definition partially :: "(path \<Rightarrow> bool) \<Rightarrow> fs \<Rightarrow> fs \<Rightarrow> fs" where
  "partially done new old = (\<lambda>q. if done q then new q else old q)"

definition fileExists :: "path \<Rightarrow> world \<Rightarrow> bool" where
  "fileExists p w = (fs_lookup (files w) p \<noteq> None)"

text \<open>
  The recursive copy, with the filter called on the source itself and on everything
  below it; what lies below a refused directory is not visited. Nothing happens when the
  filter refuses the source. Otherwise the missing parents of the destination are made
  and every visited node replaces what the destination has at the same relative path.
  The call fails when there is nothing at the source, or for a reason of its own; a
  failed call may have copied a part. \<open>copyFile\<close> is this copy without a filter.
\<close>

definition copy_allowed :: "(path \<Rightarrow> bool) \<Rightarrow> path \<Rightarrow> path \<Rightarrow> bool" where
  "copy_allowed filt src rel = list_all (\<lambda>r. filt (src @ r)) (prefixes rel)"

definition copy_result :: "(path \<Rightarrow> bool) \<Rightarrow> path \<Rightarrow> path \<Rightarrow> fs \<Rightarrow> fs" where
  "copy_result filt src dest fs =
     (if \<not> filt src then fs
      else (\<lambda>q.
        if strict_prefix q dest then (case fs q of None \<Rightarrow> Some Dir | Some n \<Rightarrow> Some n)
        else if prefix dest q then
          (let rel = drop (length dest) q
           in case fs_lookup fs (src @ rel) of
                Some n \<Rightarrow> if copy_allowed filt src rel then Some n else fs q
              | None \<Rightarrow> fs q)
        else fs q))"

definition fs_copy :: "env \<Rightarrow> (path \<Rightarrow> bool) \<Rightarrow> path \<Rightarrow> path \<Rightarrow> world \<Rightarrow> unit result" where
  "fs_copy e filt src dest w =
     (let op = OpCopy src dest; w1 = issue op w
      in if fs_lookup (files w) src = None then (Inl (NotFound src), w1)
         else if io_fails e op then
           (Inl (IOError op),
            w1\<lparr>files := partially (io_partial e op) (copy_result filt src dest (files w)) (files w)\<rparr>)
         else (Inr (), w1\<lparr>files := copy_result filt src dest (files w)\<rparr>))"

definition copyFile :: "env \<Rightarrow> path \<Rightarrow> path \<Rightarrow> world \<Rightarrow> unit result" where
  "copyFile e src dest w = fs_copy e (\<lambda>_. True) src dest w"

definition copyDirectory :: "env \<Rightarrow> (path \<Rightarrow> bool) \<Rightarrow> path \<Rightarrow> path \<Rightarrow> world \<Rightarrow> unit result" where
  "copyDirectory e filt src dest w = fs_copy e filt src dest w"

text \<open>\<open>remove\<close> deletes a file, or a directory with all it holds.\<close>

definition remove_result :: "path \<Rightarrow> fs \<Rightarrow> fs" where
  "remove_result p fs = (\<lambda>q. if prefix p q then None else fs q)"

definition removeFile :: "env \<Rightarrow> path \<Rightarrow> world \<Rightarrow> unit result" where
  "removeFile e p w =
     (let op = OpRemove p; w1 = issue op w
      in if io_fails e op then
           (Inl (IOError op),
            w1\<lparr>files := partially (io_partial e op) (remove_result p (files w)) (files w)\<rparr>)
         else (Inr (), w1\<lparr>files := remove_result p (files w)\<rparr>))"

definition writeFile :: "env \<Rightarrow> path \<Rightarrow> string \<Rightarrow> world \<Rightarrow> unit result" where
  "writeFile e p c w =
     (let op = OpWrite p; w1 = issue op w
      in if io_fails e op then (Inl (IOError op), w1)
         else (Inr (), w1\<lparr>files := (files w)(p \<mapsto> File c)\<rparr>))"

definition readAndParsePackageJson :: "env \<Rightarrow> path \<Rightarrow> world \<Rightarrow> error + pkg" where
  "readAndParsePackageJson e p w =
     (if io_fails e (OpRead p) then Inl (IOError (OpRead p))
      else case fs_lookup (files w) p of
             Some (File c) \<Rightarrow>
               (case json_parse e c of Some m \<Rightarrow> Inr m | None \<Rightarrow> Inl (ParseError p))
           | _ \<Rightarrow> Inl (NotFound p))"

definition and_then :: "'a result \<Rightarrow> ('a \<Rightarrow> world \<Rightarrow> 'b result) \<Rightarrow> 'b result" where
  "and_then r f = (case r of (Inl err, w) \<Rightarrow> (Inl err, w) | (Inr x, w) \<Rightarrow> f x w)"

section \<open>Merging the manifests\<close>

text \<open>Modelled from the spec: \<open>mergePackageJson\<close> lives in \<open>./file.js\<close>, which is not among
  the sources. By its contract it reads and parses the manifest of the destination and
  the manifest of the source, lets the keys of the source override the same keys of the
  destination except the ignored ones, applies the transform of the caller and writes
  the result to the manifest of the destination; a manifest that is missing or does not
  parse fails the step before anything is written. The three definitions below are that
  contract: a key of the source overrides, the merge of two manifests, and the step.
\<close>

definition override :: "'a option \<Rightarrow> 'a option \<Rightarrow> 'a option" where
  "override src dst = (case src of Some v \<Rightarrow> Some v | None \<Rightarrow> dst)"

text \<open>Modelled from the spec: the merge rule of \<open>mergePackageJson\<close>, key by key.\<close>

definition merge_manifests :: "string list \<Rightarrow> pkg \<Rightarrow> pkg \<Rightarrow> pkg" where
  "merge_manifests ignoredKeys source dest =
     \<lparr>dependencies = override (dependencies source) (dependencies dest),
      devDependencies = override (devDependencies source) (devDependencies dest),
      scripts = override (scripts source) (scripts dest),
      h2_diff = (if ''h2:diff'' \<in> set ignoredKeys then h2_diff dest
                 else override (h2_diff source) (h2_diff dest))\<rparr>"

text \<open>Modelled from the spec: \<open>mergePackageJson\<close> itself, absent from the sources.\<close>

definition mergePackageJson ::
  "env \<Rightarrow> path \<Rightarrow> path \<Rightarrow> string list \<Rightarrow> (pkg \<Rightarrow> pkg) \<Rightarrow> world \<Rightarrow> unit result" where
  "mergePackageJson e sourceDir targetDir ignoredKeys transform w =
     (case readAndParsePackageJson e (joinPath targetDir [Name ''package.json'']) w of
        Inl err \<Rightarrow> (Inl err, w)
      | Inr dest \<Rightarrow>
         (case readAndParsePackageJson e (joinPath sourceDir [Name ''package.json'']) w of
            Inl err \<Rightarrow> (Inl err, w)
          | Inr source \<Rightarrow>
              writeFile e (joinPath targetDir [Name ''package.json''])
                (json_print e (transform (merge_manifests ignoredKeys source dest))) w))"

section \<open>applyTemplateDiff\<close>

text \<open>\<^verbatim>\<open>diffPkgJson['h2:diff'] ?? {}\<close> and \<^verbatim>\<open>diffOptions.skipFiles || []\<close>.\<close>

definition get_diff_options :: "pkg \<Rightarrow> diff_options" where
  "get_diff_options diffPkgJson =
     (case h2_diff diffPkgJson of None \<Rightarrow> no_options | Some opts \<Rightarrow> opts)"

definition or_empty :: "string list option \<Rightarrow> string list" where
  "or_empty l = (case l of None \<Rightarrow> [] | Some xs \<Rightarrow> xs)"

text \<open>\<^verbatim>\<open>templateDir ??= await getStarterDir()\<close>.\<close>

definition template_of :: "env \<Rightarrow> path option \<Rightarrow> path" where
  "template_of e templateDir0 = (case templateDir0 of None \<Rightarrow> getStarterDir e | Some t \<Rightarrow> t)"

text \<open>
  The two manifests are read first, both at once; the first rejection, if any, is the
  outcome. Then come the template pass, the diff pass and the merge of the manifests,
  each after the one before has completed, and each failure ends the call there.
\<close>

definition applyTemplateDiff :: "env \<Rightarrow> path \<Rightarrow> path \<Rightarrow> path option \<Rightarrow> world \<Rightarrow> unit result" where
  "applyTemplateDiff e targetDirectory diffDirectory templateDir0 w =
     (let templateDir = template_of e templateDir0
      in case readAndParsePackageJson e (joinPath diffDirectory [Name ''package.json'']) w of
           Inl err \<Rightarrow> (Inl err, w)
         | Inr diffPkgJson \<Rightarrow>
            (case readAndParsePackageJson e (joinPath templateDir [Name ''package.json'']) w of
               Inl err \<Rightarrow> (Inl err, w)
             | Inr templatePkgJson \<Rightarrow>
                (let diffOptions = get_diff_options diffPkgJson
                 in and_then
                      (copyDirectory e
                         (createFilter templateDir template_exclude
                            (Some (or_empty (skipFiles diffOptions))))
                         templateDir targetDirectory w)
                      (\<lambda>_ w1. and_then
                         (copyDirectory e (createFilter templateDir diff_exclude None)
                            diffDirectory targetDirectory w1)
                         (\<lambda>_ w2. mergePackageJson e diffDirectory targetDirectory [''h2:diff'']
                            (onResult templatePkgJson diffOptions) w2)))))"

section \<open>The watch callbacks and the cleanup of prepareDiffDirectory\<close>

datatype event_type = Create | Update | Delete

record event =
  ev_path :: path
  ev_type :: event_type

text \<open>
  A promise is run from a world and settles with an outcome in a new world. The promises
  a callback makes for the events of a batch are run here one after the other, in the
  order of the batch. \<open>p.catch(() => {})\<close> turns a rejection into a fulfilment. A
  callback maps the events to promises and returns; \<open>await\<close> applied to the array of
  promises, and no \<open>await\<close> at all, both leave every promise to itself, so a rejection
  that is not caught inside the promise is an unhandled rejection.
\<close>

definition swallow :: "unit result \<Rightarrow> unit result" where
  "swallow r = (Inr (), snd r)"

fun floating :: "(world \<Rightarrow> unit result) list \<Rightarrow> world \<Rightarrow> world" where
  "floating [] w = w"
| "floating (p # ps) w =
     (case p w of
        (Inl err, w') \<Rightarrow> floating ps (w'\<lparr>unhandled := unhandled w' @ [err]\<rparr>)
      | (Inr _, w') \<Rightarrow> floating ps w')"

text \<open>The watch of the target directory: every event is copied back to the diff directory.\<close>

definition target_event :: "env \<Rightarrow> path \<Rightarrow> path \<Rightarrow> event \<Rightarrow> world \<Rightarrow> unit result" where
  "target_event e targetDirectory diffDirectory ev w =
     copyFile e (ev_path ev)
       (joinPath diffDirectory (relativePath targetDirectory (ev_path ev))) w"

definition target_watch_callback ::
  "env \<Rightarrow> path \<Rightarrow> path \<Rightarrow> error option \<Rightarrow> event list \<Rightarrow> world \<Rightarrow> world" where
  "target_watch_callback e targetDirectory diffDirectory err events w =
     (case err of
        Some x \<Rightarrow> w\<lparr>console := console w @ [x]\<rparr>
      | None \<Rightarrow> floating (map (target_event e targetDirectory diffDirectory) events) w)"

text \<open>
  The watch of the diff directory. \<open>fileInTemplate\<close> is
  \<open>event.path.replace(diffDirectory, templateDirectory)\<close>.
\<close>

definition diff_event :: "env \<Rightarrow> path \<Rightarrow> path \<Rightarrow> path \<Rightarrow> event \<Rightarrow> world \<Rightarrow> unit result" where
  "diff_event e targetDirectory diffDirectory templateDirectory ev w =
     (let targetFile = joinPath targetDirectory (relativePath diffDirectory (ev_path ev));
          fileInTemplate = replace_path diffDirectory templateDirectory (ev_path ev)
      in if ev_type ev = Delete then
           swallow
             (if fileExists fileInTemplate w then copyFile e fileInTemplate targetFile w
              else removeFile e targetFile w)
         else copyFile e (ev_path ev) targetFile w)"

definition diff_watch_callback ::
  "env \<Rightarrow> path \<Rightarrow> path \<Rightarrow> path \<Rightarrow> error option \<Rightarrow> event list \<Rightarrow> world \<Rightarrow> world" where
  "diff_watch_callback e targetDirectory diffDirectory templateDirectory err events w =
     (case err of
        Some x \<Rightarrow> w\<lparr>console := console w @ [x]\<rparr>
      | None \<Rightarrow>
          floating (map (diff_event e targetDirectory diffDirectory templateDirectory) events) w)"

text \<open>
  The watch of the template directory. \<open>fileInDiff\<close> is
  \<open>event.path.replace(templateDirectory, diffDirectory)\<close>.
\<close>

definition template_event :: "env \<Rightarrow> path \<Rightarrow> path \<Rightarrow> path \<Rightarrow> event \<Rightarrow> world \<Rightarrow> unit result" where
  "template_event e targetDirectory diffDirectory templateDirectory ev w =
     (let fileInDiff = replace_path templateDirectory diffDirectory (ev_path ev)
      in if fileExists fileInDiff w then (Inr (), w)
         else
           (let targetFile = joinPath targetDirectory (relativePath templateDirectory (ev_path ev))
            in if ev_type ev = Delete then swallow (removeFile e targetFile w)
               else copyFile e (ev_path ev) targetFile w))"

definition template_watch_callback ::
  "env \<Rightarrow> path \<Rightarrow> path \<Rightarrow> path \<Rightarrow> error option \<Rightarrow> event list \<Rightarrow> world \<Rightarrow> world" where
  "template_watch_callback e targetDirectory diffDirectory templateDirectory err events w =
     (case err of
        Some x \<Rightarrow> w\<lparr>console := console w @ [x]\<rparr>
      | None \<Rightarrow>
          floating
            (map (template_event e targetDirectory diffDirectory templateDirectory) events) w)"

text \<open>
  \<open>cleanup\<close>. A subscription is known by its number; an entry of \<open>subscriptions\<close> is
  undefined when the watcher was not loaded. \<open>subscriptions.map\<close> calls \<open>unsubscribe\<close>
  on every subscription before \<open>Promise.all\<close> looks at any outcome; \<open>Promise.all\<close> rejects
  when one of them does, and the \<open>await\<close> then throws out of \<open>cleanup\<close>.
\<close>

definition unsubscribe :: "env \<Rightarrow> nat \<Rightarrow> world \<Rightarrow> unit result" where
  "unsubscribe e sub w =
     (let op = OpUnsubscribe sub
      in (if io_fails e op then Inl (IOError op) else Inr (), issue op w))"

fun unsubscribe_each :: "env \<Rightarrow> nat option list \<Rightarrow> world \<Rightarrow> (error + unit) list \<times> world" where
  "unsubscribe_each e [] w = ([], w)"
| "unsubscribe_each e (None # subs) w =
     (case unsubscribe_each e subs w of (rs, w') \<Rightarrow> (Inr () # rs, w'))"
| "unsubscribe_each e (Some sub # subs) w =
     (case unsubscribe e sub w of
        (r, w1) \<Rightarrow> (case unsubscribe_each e subs w1 of (rs, w') \<Rightarrow> (r # rs, w')))"

fun promise_all :: "(error + unit) list \<Rightarrow> error + unit" where
  "promise_all [] = Inr ()"
| "promise_all (Inl err # rs) = Inl err"
| "promise_all (Inr _ # rs) = promise_all rs"

definition cleanup :: "env \<Rightarrow> nat option list \<Rightarrow> path \<Rightarrow> world \<Rightarrow> unit result" where
  "cleanup e subscriptions targetDirectory w =
     (case unsubscribe_each e subscriptions w of
        (rs, w1) \<Rightarrow>
          (case promise_all rs of
             Inl err \<Rightarrow> (Inl err, w1)
           | Inr _ \<Rightarrow> removeFile e targetDirectory w1))"

section \<open>Reading a manifest, and example manifests\<close>

text \<open>\<open>pkgJson.scripts?.[key]\<close> and \<open>pkgJson.dependencies?.[name]\<close>.\<close>

definition script_of :: "pkg \<Rightarrow> string \<Rightarrow> jsval option" where
  "script_of p key = (case scripts p of None \<Rightarrow> None | Some sc \<Rightarrow> sc key)"

definition dependency_of :: "pkg \<Rightarrow> string \<Rightarrow> jsval option" where
  "dependency_of p name = (case dependencies p of None \<Rightarrow> None | Some deps \<Rightarrow> deps name)"

definition no_manifest :: pkg where
  "no_manifest = \<lparr>dependencies = None, devDependencies = None, scripts = None, h2_diff = None\<rparr>"

definition build_script :: "string \<Rightarrow> pkg" where
  "build_script s = no_manifest\<lparr>scripts := Some [''build'' \<mapsto> JStr s]\<rparr>"

definition with_dependencies :: "jsobj \<Rightarrow> pkg" where
  "with_dependencies deps = no_manifest\<lparr>dependencies := Some deps\<rparr>"

section \<open>Notions for stating the properties, and example worlds\<close>

text \<open>The subscriptions that exist, in the order of \<open>subscriptions\<close>.\<close>

fun active :: "nat option list \<Rightarrow> nat list" where
  "active [] = []"
| "active (None # subs) = active subs"
| "active (Some sub # subs) = sub # active subs"

text \<open>The manifest of a directory is there, is a file, and parses.\<close>

definition manifest_ok :: "env \<Rightarrow> world \<Rightarrow> path \<Rightarrow> bool" where
  "manifest_ok e w dir =
     (case fs_lookup (files w) (dir @ [''package.json'']) of
        Some (File c) \<Rightarrow> json_parse e c \<noteq> None
      | _ \<Rightarrow> False)"

text \<open>
  An environment in which no call fails for a reason of its own, and one in which a
  single call does. The parser knows two manifests: the template's, which pins the
  version of the CLI, and the diff's, with a dependency and a build script.
\<close>

definition example_parse :: "string \<Rightarrow> pkg option" where
  "example_parse s =
     (if s = ''template manifest'' then
        Some (with_dependencies [cli_hydrogen \<mapsto> JStr ''^3.0.0''])
      else if s = ''diff manifest'' then
        Some ((with_dependencies [''a'' \<mapsto> JStr ''1.0.0''])
                \<lparr>scripts := Some [''build'' \<mapsto> JStr ''vite build --diff'']\<rparr>)
      else None)"

definition quiet_env :: env where
  "quiet_env =
     \<lparr>io_fails = (\<lambda>_. False), io_partial = (\<lambda>_ _. False), json_parse = example_parse,
      json_print = (\<lambda>_. ''merged manifest''), getStarterDir = [''t'']\<rparr>"

definition failing_env :: "fsop \<Rightarrow> env" where
  "failing_env bad = quiet_env\<lparr>io_fails := (\<lambda>op. op = bad)\<rparr>"

text \<open>
  A world during live sync, with the template in \<open>/t\<close>, the diff in \<open>/d\<close> and the target
  in \<open>/x\<close>. \<open>a.txt\<close> and \<open>b.txt\<close> have just been deleted from the diff, \<open>f.txt\<close> and
  \<open>g.txt\<close> from the template; \<open>c.txt\<close> is in all three and \<open>e.txt\<close> is new in the
  template.
\<close>

definition sync_files :: fs where
  "sync_files =
     [[] \<mapsto> Dir, [''t''] \<mapsto> Dir, [''d''] \<mapsto> Dir, [''x''] \<mapsto> Dir,
      [''t'', ''a.txt''] \<mapsto> File ''template a'',
      [''x'', ''a.txt''] \<mapsto> File ''diff a'',
      [''x'', ''b.txt''] \<mapsto> File ''diff b'',
      [''t'', ''c.txt''] \<mapsto> File ''template c'',
      [''d'', ''c.txt''] \<mapsto> File ''diff c'',
      [''x'', ''c.txt''] \<mapsto> File ''diff c'',
      [''t'', ''e.txt''] \<mapsto> File ''template e'',
      [''d'', ''f.txt''] \<mapsto> File ''diff f'',
      [''x'', ''f.txt''] \<mapsto> File ''diff f'',
      [''x'', ''g.txt''] \<mapsto> File ''template g'']"

definition sync_world :: world where
  "sync_world = \<lparr>files = sync_files, trace = [], console = [], unhandled = []\<rparr>"

definition event_at :: "event_type \<Rightarrow> path \<Rightarrow> event" where
  "event_at ty p = \<lparr>ev_path = p, ev_type = ty\<rparr>"

text \<open>
  A world before the merge, with an empty target; and the same world with a template
  manifest that does not parse, and with no manifest in the diff.
\<close>

definition merge_files :: fs where
  "merge_files =
     [[] \<mapsto> Dir, [''t''] \<mapsto> Dir, [''d''] \<mapsto> Dir, [''x''] \<mapsto> Dir,
      [''t'', ''package.json''] \<mapsto> File ''template manifest'',
      [''d'', ''package.json''] \<mapsto> File ''diff manifest'',
      [''t'', ''a.txt''] \<mapsto> File ''template a'',
      [''d'', ''a.txt''] \<mapsto> File ''diff a'',
      [''t'', ''b.txt''] \<mapsto> File ''template b'',
      [''t'', ''xturbo''] \<mapsto> Dir,
      [''t'', ''xturbo'', ''t.txt''] \<mapsto> File ''kept'',
      [''d'', ''xturbo''] \<mapsto> Dir,
      [''d'', ''xturbo'', ''d.txt''] \<mapsto> File ''lost'']"

definition merge_world :: world where
  "merge_world = \<lparr>files = merge_files, trace = [], console = [], unhandled = []\<rparr>"

definition broken_world :: world where
  "broken_world =
     merge_world\<lparr>files := merge_files([''t'', ''package.json''] \<mapsto> File ''not json'')\<rparr>"

definition bare_world :: world where
  "bare_world = merge_world\<lparr>files := merge_files([''d'', ''package.json''] := None)\<rparr>"

text \<open>
  A path whose names are names: none is empty and none holds a slash. A replacement
  string in which \<open>replace\<close> finds nothing to expand: no dollar sign is followed by a
  dollar sign, an ampersand, a backquote or a quote.
\<close>

definition wf_path :: "path \<Rightarrow> bool" where
  "wf_path p = list_all (\<lambda>n. n \<noteq> [] \<and> CHR ''/'' \<notin> set n) p"

fun plain_replacement :: "string \<Rightarrow> bool" where
  "plain_replacement (c # c' # r) =
     (\<not> (c = CHR ''$'' \<and> c' \<in> set [CHR ''$'', CHR ''&'', CHR 0x60, CHR 0x27])
      \<and> plain_replacement (c' # r))"
| "plain_replacement r = True"

text \<open>
  The manifest of a directory as \<open>readAndParsePackageJson\<close> returns it, the world in
  which \<open>applyTemplateDiff\<close> reaches the merge of the manifests, that is, after its two
  copy passes, and the merged manifest that \<open>mergePackageJson\<close> hands to the transform
  there.
\<close>

definition manifest_at :: "env \<Rightarrow> world \<Rightarrow> path \<Rightarrow> pkg option" where
  "manifest_at e w dir =
     (case readAndParsePackageJson e (dir @ [''package.json'']) w of
        Inl _ \<Rightarrow> None
      | Inr m \<Rightarrow> Some m)"

definition before_merge :: "env \<Rightarrow> path \<Rightarrow> path \<Rightarrow> path option \<Rightarrow> world \<Rightarrow> world" where
  "before_merge e x d t0 w =
     (let t = template_of e t0;
          opts = (case manifest_at e w d of None \<Rightarrow> no_options | Some dp \<Rightarrow> get_diff_options dp)
      in snd (and_then
                (copyDirectory e
                   (createFilter t template_exclude (Some (or_empty (skipFiles opts)))) t x w)
                (\<lambda>_ w1. copyDirectory e (createFilter t diff_exclude None) d x w1)))"

definition merged_manifest :: "env \<Rightarrow> path \<Rightarrow> path \<Rightarrow> path option \<Rightarrow> world \<Rightarrow> pkg option" where
  "merged_manifest e x d t0 w =
     (case (manifest_at e (before_merge e x d t0 w) d,
            manifest_at e (before_merge e x d t0 w) x) of
        (Some source, Some dest) \<Rightarrow> Some (merge_manifests [''h2:diff''] source dest)
      | _ \<Rightarrow> None)"

text \<open>
  Example manifests, a parser that knows them by the text of their files, and two
  printers: one writes the build script of a manifest, the other the version it has for
  the CLI. The two environments differ from the quiet one in the parser and the printer.
\<close>

definition template_manifest :: pkg where
  "template_manifest = with_dependencies [cli_hydrogen \<mapsto> JStr ''^3.0.0'']"

definition unpinned_manifest :: pkg where
  "unpinned_manifest = with_dependencies [''b'' \<mapsto> JStr ''2.0.0'']"

definition diff_manifest :: pkg where
  "diff_manifest =
     (with_dependencies [''a'' \<mapsto> JStr ''1.0.0''])
       \<lparr>scripts := Some [''build'' \<mapsto> JStr ''vite build --diff'']\<rparr>"

definition manifest_parse :: "string \<Rightarrow> pkg option" where
  "manifest_parse s =
     (if s = ''template manifest'' then Some template_manifest
      else if s = ''unpinned manifest'' then Some unpinned_manifest
      else if s = ''bare manifest'' then Some no_manifest
      else if s = ''diff manifest'' then Some diff_manifest
      else if s = ''two flags manifest'' then Some (build_script ''vite build --diff --diff'')
      else if s = ''plain manifest'' then Some (build_script ''vite build'')
      else None)"

definition print_build_script :: "pkg \<Rightarrow> string" where
  "print_build_script m =
     (case script_of m ''build'' of Some (JStr s) \<Rightarrow> s | _ \<Rightarrow> ''no build script'')"

definition print_cli_version :: "pkg \<Rightarrow> string" where
  "print_cli_version m =
     (case dependency_of m cli_hydrogen of Some (JStr v) \<Rightarrow> v | _ \<Rightarrow> ''no entry'')"

definition script_env :: env where
  "script_env = quiet_env\<lparr>json_parse := manifest_parse, json_print := print_build_script\<rparr>"

definition version_env :: env where
  "version_env = quiet_env\<lparr>json_parse := manifest_parse, json_print := print_cli_version\<rparr>"

text \<open>The world before the merge with another manifest in the diff, or in the template.\<close>

definition with_diff_manifest :: "string \<Rightarrow> world" where
  "with_diff_manifest c =
     merge_world\<lparr>files := merge_files([''d'', ''package.json''] \<mapsto> File c)\<rparr>"

definition with_template_manifest :: "string \<Rightarrow> world" where
  "with_template_manifest c =
     merge_world\<lparr>files := merge_files([''t'', ''package.json''] \<mapsto> File c)\<rparr>"

section \<open>Properties of the manifest transform\<close>

lemma flag_first_occurrence:
  "list_all is_space ws \<Longrightarrow> ws \<noteq> [] \<Longrightarrow>
   (\<forall>i<length pre. \<not> flag_at (drop i (pre @ ws @ ''--diff'' @ post))) \<Longrightarrow>
   replace_diff_flag (pre @ ws @ ''--diff'' @ post) = pre @ post"
proof (induction pre)
  case Nil
  then obtain w ws' where ws: "ws = w # ws'" by (cases ws) auto
  have dw: "dropWhile is_space (ws @ ''--diff'' @ post) = ''--diff'' @ post"
    using Nil(1) by (induction ws) (auto simp: is_space_def)
  have "flag_at (ws @ ''--diff'' @ post)"
    unfolding flag_at_def using Nil ws dw by simp
  then show ?case using ws dw by simp
next
  case (Cons p pre)
  have nf: "\<not> flag_at ((p # pre) @ ws @ ''--diff'' @ post)"
    using Cons.prems(3) by (metis drop0 length_greater_0_conv list.distinct(1))
  have "\<forall>i<length pre. \<not> flag_at (drop i (pre @ ws @ ''--diff'' @ post))"
  proof (intro allI impI)
    fix i assume "i < length pre"
    then have "Suc i < length (p # pre)" by simp
    from Cons.prems(3)[rule_format, OF this]
    show "\<not> flag_at (drop i (pre @ ws @ ''--diff'' @ post))" by simp
  qed
  from Cons.IH[OF Cons.prems(1,2) this] nf show ?case by simp
qed

lemma replace_no_occurrence: "\<not> contains_flag s \<Longrightarrow> replace_diff_flag s = s"
  by (induction s) auto

lemma scripts_onResult: "scripts (onResult t opts p) = scripts (strip_scripts p)"
  by (simp add: onResult_def skip_dev_dependencies_def skip_dependencies_def
      restore_cli_version_def strip_scripts_def split: option.splits prod.splits)

lemma strip_script_other: "k \<noteq> key \<Longrightarrow> strip_script k sc key = sc key"
  by (simp add: strip_script_def split: option.splits jsval.splits)

lemma strip_script_same:
  "sc key = Some (JStr s) \<Longrightarrow> strip_script key sc key = Some (JStr (replace_diff_flag s))"
  by (simp add: strip_script_def)

lemma fold_strip_script:
  assumes "key \<in> set [''build'', ''dev'', ''preview'']" and "sc key = Some (JStr s)"
  shows "fold strip_script [''build'', ''dev'', ''preview''] sc key
           = Some (JStr (replace_diff_flag s))"
proof -
  consider "key = ''build''" | "key = ''dev''" | "key = ''preview''" using assms(1) by auto
  then show ?thesis
    using assms(2) by cases (simp_all add: strip_script_other strip_script_same)
qed

lemma script_of_onResult:
  assumes "key \<in> set [''build'', ''dev'', ''preview'']" and "script_of p key = Some (JStr s)"
  shows "script_of (onResult t opts p) key = Some (JStr (replace_diff_flag s))"
proof -
  from assms(2) obtain sc where sc: "scripts p = Some sc" "sc key = Some (JStr s)"
    by (auto simp: script_of_def split: option.splits)
  show ?thesis
    using fold_strip_script[of key sc s, OF assms(1) sc(2)] sc(1)
    by (simp add: script_of_def scripts_onResult strip_scripts_def)
qed

text \<open>
  What the transform does to a script: the leftmost occurrence of the flag goes, with the
  white space before it, and a script without an occurrence stays.
\<close>

lemma transform_strips_first_flag:
  assumes "key \<in> set [''build'', ''dev'', ''preview'']"
    and "script_of pkgJson key = Some (JStr s)"
  shows "(\<forall>pre ws post.
            s = pre @ ws @ ''--diff'' @ post \<and> ws \<noteq> [] \<and> list_all is_space ws \<and>
            (\<forall>i<length pre. \<not> flag_at (drop i s)) \<longrightarrow>
            script_of (onResult templatePkgJson diffOptions pkgJson) key
              = Some (JStr (pre @ post)))
       \<and> (\<not> contains_flag s \<longrightarrow>
            script_of (onResult templatePkgJson diffOptions pkgJson) key = Some (JStr s))"
  using script_of_onResult[OF assms] flag_first_occurrence replace_no_occurrence
  by auto

lemma delete_keys_other: "k \<notin> set ks \<Longrightarrow> delete_keys ks m k = m k"
  unfolding delete_keys_def by (induction ks arbitrary: m) auto

lemma dependencies_onResult:
  "dependencies (onResult t opts p) =
     dependencies (skip_dependencies opts (restore_cli_version t p))"
  by (simp add: onResult_def skip_dev_dependencies_def skip_dependencies_def
      restore_cli_version_def strip_scripts_def split: option.splits prod.splits)

lemma dependency_of_onResult:
  assumes "dependencies pkgJson = Some deps" and "dependencies templatePkgJson = Some tdeps"
    and "cli_hydrogen \<notin> set (or_empty (skipDependencies diffOptions))"
  shows "dependency_of (onResult templatePkgJson diffOptions pkgJson) cli_hydrogen
           = Some (or_wildcard (tdeps cli_hydrogen))"
  using assms
  by (auto simp: dependency_of_def dependencies_onResult skip_dependencies_def
      restore_cli_version_def or_empty_def delete_keys_other split: option.splits)

text \<open>
  What the transform does to the version of the CLI, when the merged manifest and the
  template's manifest both have dependencies and \<open>skipDependencies\<close> does not name the
  package.
\<close>

lemma transform_restores_cli_version:
  assumes "dependencies pkgJson = Some deps" and "dependencies templatePkgJson = Some tdeps"
    and "cli_hydrogen \<notin> set (or_empty (skipDependencies diffOptions))"
  shows "(\<forall>v. tdeps cli_hydrogen = Some v \<and> v \<noteq> JNull \<longrightarrow>
            dependency_of (onResult templatePkgJson diffOptions pkgJson) cli_hydrogen = Some v)
       \<and> (tdeps cli_hydrogen = None \<or> tdeps cli_hydrogen = Some JNull \<longrightarrow>
            dependency_of (onResult templatePkgJson diffOptions pkgJson) cli_hydrogen
              = Some (JStr ''*''))"
  using dependency_of_onResult[OF assms]
  by (auto simp: or_wildcard_def split: jsval.splits)

text \<open>The restored entry is deleted again when \<open>skipDependencies\<close> names the package.\<close>

lemma skipped_cli_version_deleted:
  "dependency_of
     (onResult (with_dependencies [cli_hydrogen \<mapsto> JStr ''^3.0.0''])
        (no_options\<lparr>skipDependencies := Some [cli_hydrogen]\<rparr>)
        (with_dependencies [''a'' \<mapsto> JStr ''1.0.0'']))
     cli_hydrogen = None"
  by (simp add: dependency_of_def onResult_def skip_dev_dependencies_def
      skip_dependencies_def restore_cli_version_def strip_scripts_def delete_keys_def
      with_dependencies_def no_manifest_def no_options_def)

section \<open>Properties of paths and of the file system primitives\<close>

lemma strip_common_under: "strip_common d (d @ rel) = ([], rel)"
  by (induction d) simp_all

lemma relativePath_under: "relativePath d (d @ rel) = map Name rel"
  by (simp add: relativePath_def strip_common_under)

lemma joinPath_names: "joinPath p (map Name r) = p @ r"
  by (induction r arbitrary: p) auto

lemma joinPath_relativePath: "joinPath x (relativePath d (d @ rel)) = x @ rel"
  by (simp add: relativePath_under joinPath_names)

text \<open>
  \<open>replace\<close> on the paths. For a path below the directory that is replaced, and a
  replacing directory in whose string nothing is expanded, the result is the same path
  below the replacing directory. A replacing directory with a pattern in its name gives
  another path: with \<open>$&\<close> the replaced directory is spliced in.
\<close>

lemma expand_plain:
  "plain_replacement rep \<Longrightarrow> expand_replacement rep m b a = rep"
  by (induction rep m b a rule: expand_replacement.induct) auto

lemma js_replace_prefix:
  assumes "plain_replacement rep"
  shows "js_replace pat rep (pat @ rest) = rep @ rest"
proof (cases "pat @ rest")
  case Nil
  then show ?thesis using assms by (simp add: js_replace_def expand_plain)
next
  case (Cons c cs)
  have p: "prefix pat (c # cs)" by (metis Cons prefixI)
  have dr: "drop (length pat) (c # cs) = rest" by (metis Cons append_eq_conv_conj)
  show ?thesis unfolding Cons js_replace_def using p dr assms by (simp add: expand_plain)
qed

lemma path_string_append: "path_string (p @ q) = path_string p @ path_string q"
  by (simp add: path_string_def)

lemma names_of_name:
  "CHR ''/'' \<notin> set n \<Longrightarrow> names_of cur (n @ rest) = names_of (cur @ n) rest"
  by (induction n arbitrary: cur) auto

lemma names_of_path_string:
  assumes "cur \<noteq> []"
  shows "names_of cur (path_string p) = cur # names_of [] (path_string p)"
  using assms by (cases p) (simp_all add: path_string_def)

lemma parse_path_string: "wf_path p \<Longrightarrow> parse_path (path_string p) = p"
proof (induction p)
  case Nil
  then show ?case by (simp add: parse_path_def path_string_def)
next
  case (Cons n p)
  then have n: "n \<noteq> []" "CHR ''/'' \<notin> set n" and p: "wf_path p"
    by (simp_all add: wf_path_def)
  have "path_string (n # p) = CHR ''/'' # n @ path_string p"
    by (simp add: path_string_def)
  then have "parse_path (path_string (n # p)) = names_of [] (n @ path_string p)"
    by (simp add: parse_path_def)
  also have "\<dots> = names_of n (path_string p)"
    using names_of_name[OF n(2), of "[]" "path_string p"] by simp
  also have "\<dots> = n # names_of [] (path_string p)"
    by (rule names_of_path_string) (rule n(1))
  finally show ?case using Cons.IH[OF p] by (simp add: parse_path_def)
qed

lemma replace_path_under:
  assumes "wf_path t" and "wf_path rel" and "plain_replacement (path_string t)"
  shows "replace_path d t (d @ rel) = t @ rel"
proof -
  have wf: "wf_path (t @ rel)" using assms(1,2) by (simp add: wf_path_def)
  have "js_replace (path_string d) (path_string t) (path_string (d @ rel))
          = path_string (t @ rel)"
    using js_replace_prefix[OF assms(3), of "path_string d" "path_string rel"]
    by (simp add: path_string_append)
  then show ?thesis
    using parse_path_string[OF wf] by (simp add: replace_path_def)
qed

lemma replace_path_expands:
  "replace_path [''t''] [''d$&''] [''t'', ''c.txt''] = [''d'', ''t'', ''c.txt'']"
  by (simp add: replace_path_def js_replace_def path_string_def parse_path_def)

lemma fs_lookup_Some: "fs_lookup fs p = Some n \<Longrightarrow> fs p = Some n"
  by (simp add: fs_lookup_def split: if_splits)




lemma trace_removeFile: "trace (snd (removeFile e p w)) = trace w @ [OpRemove p]"
  by (simp add: removeFile_def issue_def Let_def)


lemma files_removeFile:
  assumes "\<not> io_fails e (OpRemove p)" and "prefix p q"
  shows "files (snd (removeFile e p w)) q = None"
  using assms by (simp add: removeFile_def issue_def Let_def remove_result_def)

lemmas sync_eval = sync_world_def sync_files_def quiet_env_def failing_env_def event_at_def
  fileExists_def fs_lookup_def

section \<open>The promises of a batch\<close>



text \<open>
  The promise of the last event of a batch runs in the world that the promises of the
  events before it have left.
\<close>

lemma floating_append: "floating (ps @ qs) w = floating qs (floating ps w)"
  by (induction ps arbitrary: w) (auto split: prod.splits sum.splits)

lemma floating_last_fulfilled:
  "fst (p (floating ps w)) = Inr () \<Longrightarrow> floating (ps @ [p]) w = snd (p (floating ps w))"
  by (cases "p (floating ps w)") (simp add: floating_append)



section \<open>The watch of the diff directory\<close>









section \<open>The watch of the template directory\<close>

lemma template_event_under:
  assumes "ev_path ev = t @ rel"
    and "wf_path d" and "wf_path rel" and "plain_replacement (path_string d)"
  shows "template_event e x d t ev w =
           (if fileExists (d @ rel) w then (Inr (), w)
            else if ev_type ev = Delete then swallow (removeFile e (x @ rel) w)
            else copyFile e (t @ rel) (x @ rel) w)"
  using assms(1)
  by (simp add: template_event_def joinPath_relativePath replace_path_under[OF assms(2,3,4)])

lemma template_callback_last:
  "template_watch_callback e x d t None (evs @ [ev]) w
     = floating [template_event e x d t ev] (template_watch_callback e x d t None evs w)"
  by (simp add: template_watch_callback_def floating_append)





text \<open>
  C7, as the code has it. The template watch delivers, without a watcher error, a batch
  whose last event is a delete event for the path \<open>rel\<close> below the template directory
  \<open>t\<close>; the events before it have left the world
  \<open>template_watch_callback e x d t None evs w\<close>. The names of the paths are names and
  the string of the diff directory \<open>d\<close> holds nothing that \<open>replace\<close> expands. When
  \<open>rel\<close> exists below the diff directory the callback leaves that world as it is, since
  the check of the diff's priority comes before the kind of the event is looked at.
  Otherwise the one call issued is the removal of the path below the target \<open>x\<close>; a
  failure of it is swallowed, so no unhandled rejection is added, and unless the call
  fails nothing is left at or below the path.
\<close>

theorem C7_template_delete:
  assumes "ev_type ev = Delete" and "ev_path ev = t @ rel"
    and "wf_path d" and "wf_path rel" and "plain_replacement (path_string d)"
  shows "(fileExists (d @ rel) (template_watch_callback e x d t None evs w) \<longrightarrow>
            template_watch_callback e x d t None (evs @ [ev]) w
              = template_watch_callback e x d t None evs w)
       \<and> (\<not> fileExists (d @ rel) (template_watch_callback e x d t None evs w) \<longrightarrow>
            trace (template_watch_callback e x d t None (evs @ [ev]) w)
              = trace (template_watch_callback e x d t None evs w) @ [OpRemove (x @ rel)] \<and>
            unhandled (template_watch_callback e x d t None (evs @ [ev]) w)
              = unhandled (template_watch_callback e x d t None evs w) \<and>
            (\<not> io_fails e (OpRemove (x @ rel)) \<longrightarrow>
               (\<forall>q. prefix (x @ rel) q \<longrightarrow>
                  files (template_watch_callback e x d t None (evs @ [ev]) w) q = None)))"
proof (cases "fileExists (d @ rel) (template_watch_callback e x d t None evs w)")
  case True
  then show ?thesis
    by (simp add: template_callback_last template_event_under[OF assms(2-5)])
next
  case False
  let ?w1 = "template_watch_callback e x d t None evs w"
  have ev: "template_event e x d t ev ?w1 = swallow (removeFile e (x @ rel) ?w1)"
    using False assms(1) by (simp add: template_event_under[OF assms(2-5)])
  have last: "template_watch_callback e x d t None (evs @ [ev]) w
                = snd (removeFile e (x @ rel) ?w1)"
    by (simp add: template_callback_last ev swallow_def)
  have un: "unhandled (snd (removeFile e (x @ rel) ?w1)) = unhandled ?w1"
    by (simp add: removeFile_def issue_def Let_def)
  show ?thesis
    using False un unfolding last
    by (simp add: trace_removeFile files_removeFile)
qed

text \<open>\<open>g.txt\<close> is not in the diff and is removed from the target; \<open>f.txt\<close> is, and stays.\<close>

theorem C7_template_delete_witness:
  "files (template_watch_callback quiet_env [''x''] [''d''] [''t''] None
     [event_at Delete [''t'', ''g.txt'']] sync_world) [''x'', ''g.txt''] = None
   \<and> unhandled (template_watch_callback quiet_env [''x''] [''d''] [''t''] None
     [event_at Delete [''t'', ''g.txt'']] sync_world) = []
   \<and> template_watch_callback quiet_env [''x''] [''d''] [''t''] None
     [event_at Delete [''t'', ''f.txt'']] sync_world = sync_world"
proof -
  let ?cb = "template_watch_callback quiet_env [''x''] [''d''] [''t''] None"
  have g: "ev_type (event_at Delete [''t'', ''g.txt'']) = Delete"
          "ev_path (event_at Delete [''t'', ''g.txt'']) = [''t''] @ [''g.txt'']"
    by (simp_all add: event_at_def)
  have f: "ev_type (event_at Delete [''t'', ''f.txt'']) = Delete"
          "ev_path (event_at Delete [''t'', ''f.txt'']) = [''t''] @ [''f.txt'']"
    by (simp_all add: event_at_def)
  have wd: "wf_path [''d'']" and wg: "wf_path [''g.txt'']" and wf: "wf_path [''f.txt'']"
    and pl: "plain_replacement (path_string [''d''])"
    by (simp_all add: wf_path_def path_string_def)
  have w0: "?cb [] sync_world = sync_world" by (simp add: template_watch_callback_def)
  have dg: "\<not> fileExists ([''d''] @ [''g.txt'']) sync_world" by (simp add: sync_eval)
  have df: "fileExists ([''d''] @ [''f.txt'']) sync_world" by (simp add: sync_eval)
  have q: "\<not> io_fails quiet_env op" for op by (simp add: quiet_env_def)
  from C7_template_delete[OF g wd wg pl, where e = quiet_env and x = "[''x'']" and evs = "[]"
      and w = sync_world] dg q w0
  have 1: "files (?cb [event_at Delete [''t'', ''g.txt'']] sync_world) [''x'', ''g.txt''] = None"
    and 2: "unhandled (?cb [event_at Delete [''t'', ''g.txt'']] sync_world) = []"
    by (simp_all add: sync_world_def)
  from C7_template_delete[OF f wd wf pl, where e = quiet_env and x = "[''x'']" and evs = "[]"
      and w = sync_world] df w0
  have 3: "?cb [event_at Delete [''t'', ''f.txt'']] sync_world = sync_world"
    by simp
  from 1 2 3 show ?thesis by simp
qed

text \<open>
  C7 as the claim states it fails: \<open>f.txt\<close> is gone from the template and exists in the
  diff; after the callback has handled the delete event the target still has the file,
  and no call was issued.
\<close>

theorem C7_diff_priority_counterexample:
  "fs_lookup (files sync_world) [''t'', ''f.txt''] = None
   \<and> files (template_watch_callback quiet_env [''x''] [''d''] [''t''] None
        [event_at Delete [''t'', ''f.txt'']] sync_world) [''x'', ''f.txt'']
       = Some (File ''diff f'')
   \<and> trace (template_watch_callback quiet_env [''x''] [''d''] [''t''] None
        [event_at Delete [''t'', ''f.txt'']] sync_world) = []"
proof -
  have 1: "fs_lookup (files sync_world) [''t'', ''f.txt''] = None" by code_simp
  have 2: "files (template_watch_callback quiet_env [''x''] [''d''] [''t''] None
        [event_at Delete [''t'', ''f.txt'']] sync_world) [''x'', ''f.txt'']
       = Some (File ''diff f'')"
    by code_simp
  have 3: "trace (template_watch_callback quiet_env [''x''] [''d''] [''t''] None
        [event_at Delete [''t'', ''f.txt'']] sync_world) = []"
    by code_simp
  from 1 2 3 show ?thesis by simp
qed

section \<open>Failures of the copies\<close>

text \<open>
  C8 does not hold of the code. In each of the three callbacks the promise of a copy is
  left without a handler: when the source of the event is gone by the time of the copy
  (\<open>h.txt\<close> in the diff, in the template, a generated file in the target), the copy
  rejects and the rejection is unhandled. Only the delete branches of the diff and
  template watches catch.
\<close>

theorem C8_copy_rejection_unhandled:
  "unhandled (diff_watch_callback quiet_env [''x''] [''d''] [''t''] None
      [event_at Create [''d'', ''h.txt'']] sync_world) = [NotFound [''d'', ''h.txt'']]
   \<and> unhandled (template_watch_callback quiet_env [''x''] [''d''] [''t''] None
      [event_at Update [''t'', ''h.txt'']] sync_world) = [NotFound [''t'', ''h.txt'']]
   \<and> unhandled (target_watch_callback quiet_env [''x''] [''d''] None
      [event_at Delete [''x'', ''h.generated.d.ts'']] sync_world)
       = [NotFound [''x'', ''h.generated.d.ts'']]"
proof -
  have 1: "unhandled (diff_watch_callback quiet_env [''x''] [''d''] [''t''] None
      [event_at Create [''d'', ''h.txt'']] sync_world) = [NotFound [''d'', ''h.txt'']]"
    by code_simp
  have 2: "unhandled (template_watch_callback quiet_env [''x''] [''d''] [''t''] None
      [event_at Update [''t'', ''h.txt'']] sync_world) = [NotFound [''t'', ''h.txt'']]"
    by code_simp
  have 3: "unhandled (target_watch_callback quiet_env [''x''] [''d''] None
      [event_at Delete [''x'', ''h.generated.d.ts'']] sync_world)
       = [NotFound [''x'', ''h.generated.d.ts'']]"
    by code_simp
  from 1 2 3 show ?thesis by simp
qed

section \<open>cleanup\<close>

lemma unsubscribe_eq:
  "unsubscribe e sub w =
     (if io_fails e (OpUnsubscribe sub) then Inl (IOError (OpUnsubscribe sub)) else Inr (),
      w\<lparr>trace := trace w @ [OpUnsubscribe sub]\<rparr>)"
  by (simp add: unsubscribe_def issue_def Let_def)

lemma unsubscribe_each_world:
  "snd (unsubscribe_each e subs w) = w\<lparr>trace := trace w @ map OpUnsubscribe (active subs)\<rparr>"
proof (induction subs arbitrary: w)
  case Nil
  then show ?case by simp
next
  case (Cons a subs)
  then show ?case
    by (cases a) (simp_all add: case_prod_beta unsubscribe_eq)
qed

lemma unsubscribe_each_outcome:
  "(\<exists>err. promise_all (fst (unsubscribe_each e subs w)) = Inl err)
     \<longleftrightarrow> (\<exists>i\<in>set (active subs). io_fails e (OpUnsubscribe i))"
proof (induction subs arbitrary: w)
  case Nil
  then show ?case by simp
next
  case (Cons a subs)
  then show ?case
    by (cases a) (simp_all add: case_prod_beta unsubscribe_eq)
qed

lemma set_active: "set (active subs) = {i. Some i \<in> set subs}"
  by (induction subs rule: active.induct) auto

text \<open>
  C3, as the code has it. \<open>cleanup\<close> calls \<open>unsubscribe\<close> on every subscription that
  exists, whether or not one of the calls fails. When none fails, the removal of the
  target directory is issued after them. When one fails, \<open>cleanup\<close> fails with it: the
  calls issued are the unsubscriptions alone, the removal of the target directory is not
  among them, and the files are as before.
\<close>

theorem C3_cleanup:
  "(\<forall>i. Some i \<in> set subs \<longrightarrow> OpUnsubscribe i \<in> set (trace (snd (cleanup e subs x w))))
   \<and> ((\<forall>i. Some i \<in> set subs \<longrightarrow> \<not> io_fails e (OpUnsubscribe i)) \<longrightarrow>
        trace (snd (cleanup e subs x w))
          = trace w @ map OpUnsubscribe (active subs) @ [OpRemove x])
   \<and> ((\<exists>i. Some i \<in> set subs \<and> io_fails e (OpUnsubscribe i)) \<longrightarrow>
        (\<exists>err. fst (cleanup e subs x w) = Inl err) \<and>
        trace (snd (cleanup e subs x w)) = trace w @ map OpUnsubscribe (active subs) \<and>
        files (snd (cleanup e subs x w)) = files w)"
proof (cases "\<exists>i\<in>set (active subs). io_fails e (OpUnsubscribe i)")
  case True
  then obtain err where err: "promise_all (fst (unsubscribe_each e subs w)) = Inl err"
    using unsubscribe_each_outcome by blast
  have c: "cleanup e subs x w
             = (Inl err, w\<lparr>trace := trace w @ map OpUnsubscribe (active subs)\<rparr>)"
    using err unsubscribe_each_world[of e subs w]
    by (simp add: cleanup_def case_prod_beta)
  show ?thesis using True by (auto simp: c set_active)
next
  case False
  then have "\<nexists>err. promise_all (fst (unsubscribe_each e subs w)) = Inl err"
    using unsubscribe_each_outcome by blast
  then have ok: "promise_all (fst (unsubscribe_each e subs w)) = Inr ()"
    by (cases "promise_all (fst (unsubscribe_each e subs w))") auto
  have c: "cleanup e subs x w
             = removeFile e x (w\<lparr>trace := trace w @ map OpUnsubscribe (active subs)\<rparr>)"
    using ok unsubscribe_each_world[of e subs w]
    by (simp add: cleanup_def case_prod_beta)
  show ?thesis using False by (auto simp: c set_active trace_removeFile)
qed

text \<open>
  Two watches that unsubscribe without failure: the target directory is removed. Two
  watches of which the second fails to unsubscribe: both calls are issued and no other.
\<close>

theorem C3_cleanup_witness:
  "trace (snd (cleanup quiet_env [Some 0, None, Some 2] [''x''] sync_world))
     = [OpUnsubscribe 0, OpUnsubscribe 2, OpRemove [''x'']]
   \<and> OpUnsubscribe 2 \<in> set (trace (snd (cleanup quiet_env [Some 0, None, Some 2] [''x'']
        sync_world)))
   \<and> trace (snd (cleanup (failing_env (OpUnsubscribe 1)) [Some 0, Some 1] [''x'']
        sync_world)) = [OpUnsubscribe 0, OpUnsubscribe 1]"
proof -
  have q: "\<forall>i. Some i \<in> set [Some 0, None, Some 2] \<longrightarrow> \<not> io_fails quiet_env (OpUnsubscribe i)"
    by (simp add: quiet_env_def)
  have f: "\<exists>i. Some i \<in> set [Some 0, Some 1]
             \<and> io_fails (failing_env (OpUnsubscribe 1)) (OpUnsubscribe i)"
    by (simp add: failing_env_def quiet_env_def)
  from C3_cleanup[of "[Some 0, None, Some 2]" quiet_env "[''x'']" sync_world] q
  have "trace (snd (cleanup quiet_env [Some 0, None, Some 2] [''x''] sync_world))
          = trace sync_world @ map OpUnsubscribe (active [Some 0, None, Some 2])
              @ [OpRemove [''x'']]"
    by blast
  then have 1: "trace (snd (cleanup quiet_env [Some 0, None, Some 2] [''x''] sync_world))
     = [OpUnsubscribe 0, OpUnsubscribe 2, OpRemove [''x'']]"
    by (simp add: sync_world_def)
  from C3_cleanup[of "[Some 0, None, Some 2]" quiet_env "[''x'']" sync_world]
  have 2: "OpUnsubscribe 2 \<in> set (trace (snd (cleanup quiet_env [Some 0, None, Some 2] [''x'']
        sync_world)))"
    by simp
  from C3_cleanup[of "[Some 0, Some 1]" "failing_env (OpUnsubscribe 1)" "[''x'']" sync_world] f
  have "trace (snd (cleanup (failing_env (OpUnsubscribe 1)) [Some 0, Some 1] [''x'']
          sync_world)) = trace sync_world @ map OpUnsubscribe (active [Some 0, Some 1])"
    by blast
  then have 3: "trace (snd (cleanup (failing_env (OpUnsubscribe 1)) [Some 0, Some 1] [''x'']
        sync_world)) = [OpUnsubscribe 0, OpUnsubscribe 1]"
    by (simp add: sync_world_def)
  from 1 2 3 show ?thesis by simp
qed

text \<open>
  C3 as the claim states it fails: the second of three watches fails to unsubscribe. All
  three are unsubscribed, \<open>cleanup\<close> fails, no removal is issued and the target still
  holds its files.
\<close>

theorem C3_failed_unsubscribe_counterexample:
  "fst (cleanup (failing_env (OpUnsubscribe 1)) [Some 0, Some 1, Some 2] [''x''] sync_world)
     = Inl (IOError (OpUnsubscribe 1))
   \<and> trace (snd (cleanup (failing_env (OpUnsubscribe 1)) [Some 0, Some 1, Some 2] [''x'']
        sync_world)) = [OpUnsubscribe 0, OpUnsubscribe 1, OpUnsubscribe 2]
   \<and> files (snd (cleanup (failing_env (OpUnsubscribe 1)) [Some 0, Some 1, Some 2] [''x'']
        sync_world)) [''x'', ''c.txt''] = Some (File ''diff c'')"
  by (simp add: cleanup_def unsubscribe_eq sync_eval)

section \<open>applyTemplateDiff\<close>

lemma read_fails:
  "\<not> manifest_ok e w dir \<Longrightarrow>
     \<exists>err. readAndParsePackageJson e (dir @ [''package.json'']) w = Inl err"
  by (auto simp: manifest_ok_def readAndParsePackageJson_def split: option.splits node.splits)

lemma read_ok:
  "readAndParsePackageJson e p w = Inr m \<Longrightarrow>
     \<exists>c. fs_lookup (files w) p = Some (File c) \<and> json_parse e c = Some m"
  by (auto simp: readAndParsePackageJson_def split: option.splits node.splits if_splits)

text \<open>
  C9. When the manifest of the diff directory or the manifest of the template directory
  is missing, is not a file or does not parse, \<open>applyTemplateDiff\<close> fails and returns the
  world it was given: no file is written anywhere, so none in the target, and no call is
  issued.
\<close>

theorem C9_manifests_first:
  assumes "\<not> manifest_ok e w d \<or> \<not> manifest_ok e w (template_of e t0)"
  shows "\<exists>err. applyTemplateDiff e x d t0 w = (Inl err, w)"
proof (cases "readAndParsePackageJson e (d @ [''package.json'']) w")
  case (Inl err)
  then show ?thesis by (simp add: applyTemplateDiff_def)
next
  case (Inr dp)
  then have "manifest_ok e w d"
    using read_fails[of e w d] by auto
  then have "\<not> manifest_ok e w (template_of e t0)" using assms by simp
  from read_fails[OF this] obtain err where
    "readAndParsePackageJson e (template_of e t0 @ [''package.json'']) w = Inl err" ..
  then show ?thesis using Inr by (simp add: applyTemplateDiff_def)
qed

lemmas merge_eval = merge_world_def merge_files_def broken_world_def bare_world_def
  quiet_env_def example_parse_def fs_lookup_def manifest_ok_def template_of_def

text \<open>
  A template manifest that does not parse, and a diff without a manifest: the call
  fails and the world is the one it was given.
\<close>

theorem C9_manifests_first_witness:
  "snd (applyTemplateDiff quiet_env [''x''] [''d''] (Some [''t'']) broken_world) = broken_world
   \<and> fst (applyTemplateDiff quiet_env [''x''] [''d''] (Some [''t'']) broken_world)
       = Inl (ParseError [''t'', ''package.json''])
   \<and> snd (applyTemplateDiff quiet_env [''x''] [''d''] None bare_world) = bare_world
   \<and> fst (applyTemplateDiff quiet_env [''x''] [''d''] None bare_world)
       = Inl (NotFound [''d'', ''package.json''])"
proof -
  have b: "\<not> manifest_ok quiet_env broken_world [''d'']
           \<or> \<not> manifest_ok quiet_env broken_world (template_of quiet_env (Some [''t'']))"
    by (simp add: merge_eval)
  have n: "\<not> manifest_ok quiet_env bare_world [''d'']
           \<or> \<not> manifest_ok quiet_env bare_world (template_of quiet_env None)"
    by (simp add: merge_eval)
  from C9_manifests_first[OF b, of "[''x'']"]
  have 1: "snd (applyTemplateDiff quiet_env [''x''] [''d''] (Some [''t'']) broken_world)
             = broken_world"
    by auto
  from C9_manifests_first[OF n, of "[''x'']"]
  have 2: "snd (applyTemplateDiff quiet_env [''x''] [''d''] None bare_world) = bare_world"
    by auto
  have 3: "fst (applyTemplateDiff quiet_env [''x''] [''d''] (Some [''t'']) broken_world)
             = Inl (ParseError [''t'', ''package.json''])"
    by code_simp
  have 4: "fst (applyTemplateDiff quiet_env [''x''] [''d''] None bare_world)
             = Inl (NotFound [''d'', ''package.json''])"
    by code_simp
  from 1 2 3 4 show ?thesis by simp
qed

lemma applyTemplateDiff_success:
  assumes "applyTemplateDiff e x d t0 w = (Inr (), w')"
  obtains dp tp w1 w2 where
    "readAndParsePackageJson e (d @ [''package.json'']) w = Inr dp"
    "readAndParsePackageJson e (template_of e t0 @ [''package.json'']) w = Inr tp"
    "copyDirectory e (createFilter (template_of e t0) template_exclude
        (Some (or_empty (skipFiles (get_diff_options dp))))) (template_of e t0) x w
       = (Inr (), w1)"
    "copyDirectory e (createFilter (template_of e t0) diff_exclude None) d x w1 = (Inr (), w2)"
    "mergePackageJson e d x [''h2:diff''] (onResult tp (get_diff_options dp)) w2 = (Inr (), w')"
  using assms
  by (auto simp: applyTemplateDiff_def and_then_def Let_def split: sum.splits prod.splits)

lemma copyDirectory_success:
  assumes "copyDirectory e filt src dest w = (Inr (), w')"
  shows "files w' = copy_result filt src dest (files w)"
  using assms by (auto simp: copyDirectory_def fs_copy_def Let_def issue_def split: if_splits)

lemma mergePackageJson_success:
  assumes "mergePackageJson e s x ig f w = (Inr (), w')" and "p \<noteq> x @ [''package.json'']"
  shows "files w' p = files w p"
  using assms
  by (auto simp: mergePackageJson_def writeFile_def Let_def issue_def
      split: sum.splits if_splits)

lemma copy_result_outside:
  assumes "\<not> prefix dest q" and "fs q \<noteq> None"
  shows "copy_result filt src dest fs q = fs q"
  using assms by (auto simp: copy_result_def)

lemma fs_lookup_outside:
  assumes "fs_lookup fs p = Some n" and "\<not> prefix dest p"
  shows "fs_lookup (copy_result filt src dest fs) p = Some n"
proof -
  have anc: "fs q = Some Dir" if "q \<in> set (butlast (prefixes p))" for q
    using assms(1) that by (auto simp: fs_lookup_def list_all_iff split: if_splits)
  have np: "\<not> prefix dest q" if "q \<in> set (butlast (prefixes p))" for q
  proof -
    from that have "q \<in> set (prefixes p)" by (rule in_set_butlastD)
    then have "prefix q p" by simp
    then show ?thesis using assms(2) by (meson prefix_order.trans)
  qed
  have "copy_result filt src dest fs q = Some Dir" if "q \<in> set (butlast (prefixes p))" for q
    using copy_result_outside[OF np[OF that], of fs filt src] anc[OF that] by simp
  moreover have "copy_result filt src dest fs p = Some n"
    using copy_result_outside[OF assms(2), of fs filt src] fs_lookup_Some[OF assms(1)] by simp
  ultimately show ?thesis by (simp add: fs_lookup_def list_all_iff)
qed

lemma copy_result_written:
  assumes "fs_lookup fs (src @ rel) = Some n" and "copy_allowed filt src rel"
  shows "copy_result filt src dest fs (dest @ rel) = Some n"
proof -
  have "[] \<in> set (prefixes rel)" by simp
  then have "filt (src @ [])"
    using assms(2) unfolding copy_allowed_def list_all_iff by blast
  then have "filt src" by simp
  moreover have "\<not> strict_prefix (dest @ rel) dest"
    by (auto simp: strict_prefix_def prefix_def)
  ultimately show ?thesis using assms by (simp add: copy_result_def)
qed

lemma alt_here_scan: "alt_here alts s \<Longrightarrow> re_scan alts True s"
  by (cases s) auto

lemma re_scan_after_sep:
  "alt_here alts name \<Longrightarrow> re_scan alts b (pre @ CHR ''/'' # name)"
proof (induction pre arbitrary: b)
  case Nil
  then show ?case using alt_here_scan[of alts name] by (simp add: is_sep_def)
next
  case (Cons c pre)
  then show ?case by simp
qed

lemma rel_string_snoc:
  "segs \<noteq> [] \<Longrightarrow> rel_string (segs @ [s]) = rel_string segs @ CHR ''/'' # seg_string s"
  by (induction segs rule: rel_string.induct) auto

lemma re_test_last_segment:
  assumes "segs \<noteq> []" and "alt_here alts (seg_string (last segs))"
  shows "re_test alts (rel_string segs)"
proof (cases "butlast segs = []")
  case True
  then have "segs = [last segs]" using assms(1)
    by (metis append_butlast_last_id append_Nil)
  then have "rel_string segs = seg_string (last segs)" by (metis rel_string.simps(2))
  then show ?thesis using alt_here_scan[OF assms(2)] by (simp add: re_test_def)
next
  case False
  have "segs = butlast segs @ [last segs]" using assms(1) by simp
  then have "rel_string segs = rel_string (butlast segs) @ CHR ''/'' # seg_string (last segs)"
    using rel_string_snoc[OF False, of "last segs"] by simp
  then show ?thesis using re_scan_after_sep[OF assms(2)] by (simp add: re_test_def)
qed

lemma strip_common_rest:
  "\<not> prefix b a \<Longrightarrow> snd (strip_common a b) \<noteq> [] \<and> last (snd (strip_common a b)) = last b"
  by (induction a b rule: strip_common.induct) auto

lemma relativePath_last:
  assumes "\<not> prefix p t"
  shows "relativePath t p \<noteq> [] \<and> last (relativePath t p) = Name (last p)"
proof -
  obtain f r where fr: "strip_common t p = (f, r)" by (cases "strip_common t p")
  with strip_common_rest[OF assms] have r: "r \<noteq> []" "last r = last p" by simp_all
  then show ?thesis by (simp add: relativePath_def fr last_map)
qed

lemma manifest_name_excluded: "alt_here diff_exclude ''package.json''"
  by (simp add: alt_here_def diff_exclude_def lit_def seg_end_def canonicalize_def)

lemma diff_filter_excludes_manifest:
  assumes "\<not> prefix (d @ [''package.json'']) t"
  shows "\<not> createFilter t diff_exclude None (d @ [''package.json''])"
proof -
  from relativePath_last[OF assms]
  have "relativePath t (d @ [''package.json'']) \<noteq> []"
    and "seg_string (last (relativePath t (d @ [''package.json'']))) = ''package.json''"
    by simp_all
  then have "re_test diff_exclude (rel_string (relativePath t (d @ [''package.json''])))"
    using re_test_last_segment manifest_name_excluded by metis
  then show ?thesis by (simp add: createFilter_def)
qed

lemma in_set_butlast:
  "x \<in> set xs \<Longrightarrow> x \<noteq> last xs \<Longrightarrow> x \<in> set (butlast xs)"
  by (induction xs) (auto split: if_splits)

lemma file_not_above_file:
  assumes "fs_lookup fs p = Some (File c)" and "fs_lookup fs q = Some n"
  shows "\<not> strict_prefix p q"
proof
  assume sp: "strict_prefix p q"
  then have "p \<in> set (prefixes q)" and "p \<noteq> last (prefixes q)"
    by (simp_all add: strict_prefix_def)
  then have "p \<in> set (butlast (prefixes q))" by (rule in_set_butlast)
  then have "fs p = Some Dir"
    using assms(2) by (auto simp: fs_lookup_def list_all_iff split: if_splits)
  then show False using fs_lookup_Some[OF assms(1)] by simp
qed

text \<open>
  C1. Let \<open>applyTemplateDiff\<close> complete for the target \<open>x\<close>, the diff directory \<open>d\<close> and the
  template directory, in a world where the relative path \<open>rel\<close> names a file in the
  template and a file with the content \<open>cd\<close> in the diff, where the filter of the diff
  pass refuses neither the file nor a directory on the way to it, and where the diff's
  file does not itself lie in the target. Then the target has at \<open>rel\<close> a file with the
  content \<open>cd\<close>. What the filter of the template pass says of the path plays no role:
  the diff pass comes second and overwrites, and the merge of the manifests writes the
  target's \<open>package.json\<close> only, which the filter of the diff pass refuses.
\<close>

theorem C1_diff_wins:
  assumes "applyTemplateDiff e x d t0 w = (Inr (), w')"
    and "fs_lookup (files w) (template_of e t0 @ rel) = Some (File ct)"
    and "fs_lookup (files w) (d @ rel) = Some (File cd)"
    and "copy_allowed (createFilter (template_of e t0) diff_exclude None) d rel"
    and "\<not> prefix x (d @ rel)"
  shows "files w' (x @ rel) = Some (File cd)"
proof -
  let ?t = "template_of e t0"
  from applyTemplateDiff_success[OF assms(1)] obtain dp tp w1 w2 where
    rd: "readAndParsePackageJson e (d @ [''package.json'']) w = Inr dp" and
    rt: "readAndParsePackageJson e (?t @ [''package.json'']) w = Inr tp" and
    c1: "copyDirectory e (createFilter ?t template_exclude
           (Some (or_empty (skipFiles (get_diff_options dp))))) ?t x w = (Inr (), w1)" and
    c2: "copyDirectory e (createFilter ?t diff_exclude None) d x w1 = (Inr (), w2)" and
    mg: "mergePackageJson e d x [''h2:diff''] (onResult tp (get_diff_options dp)) w2
           = (Inr (), w')"
    by blast
  have ne: "rel \<noteq> [''package.json'']"
  proof
    assume rel: "rel = [''package.json'']"
    have "createFilter ?t diff_exclude None (d @ rel)"
      using assms(4) by (auto simp: copy_allowed_def list_all_iff)
    then have pre: "prefix (d @ [''package.json'']) ?t"
      using diff_filter_excludes_manifest[of d ?t] rel by auto
    then have "strict_prefix (d @ [''package.json'']) (?t @ [''package.json''])"
      by (auto simp: strict_prefix_def prefix_def)
    moreover obtain c where "fs_lookup (files w) (?t @ [''package.json'']) = Some (File c)"
      using read_ok[OF rt] by blast
    ultimately show False
      using file_not_above_file[of "files w" "d @ [''package.json'']" cd] assms(3) rel by blast
  qed
  have "fs_lookup (files w1) (d @ rel) = Some (File cd)"
    using fs_lookup_outside[OF assms(3) assms(5)] copyDirectory_success[OF c1] by simp
  then have "files w2 (x @ rel) = Some (File cd)"
    using copy_result_written[OF _ assms(4)] copyDirectory_success[OF c2] by simp
  moreover have "files w' (x @ rel) = files w2 (x @ rel)"
    using mergePackageJson_success[OF mg] ne by simp
  ultimately show ?thesis by simp
qed

text \<open>\<open>a.txt\<close> is in the template and in the diff; the target gets the diff's.\<close>

theorem C1_diff_wins_witness:
  "fs_lookup (files merge_world) [''t'', ''a.txt''] = Some (File ''template a'')
   \<and> files (snd (applyTemplateDiff quiet_env [''x''] [''d''] (Some [''t'']) merge_world))
        [''x'', ''a.txt''] = Some (File ''diff a'')"
proof -
  have ok: "fst (applyTemplateDiff quiet_env [''x''] [''d''] (Some [''t'']) merge_world) = Inr ()"
    by code_simp
  then have run: "applyTemplateDiff quiet_env [''x''] [''d''] (Some [''t'']) merge_world
      = (Inr (), snd (applyTemplateDiff quiet_env [''x''] [''d''] (Some [''t'']) merge_world))"
    by (simp add: prod_eq_iff)
  have ht: "fs_lookup (files merge_world) (template_of quiet_env (Some [''t'']) @ [''a.txt''])
              = Some (File ''template a'')"
    by (simp add: merge_eval)
  have hd: "fs_lookup (files merge_world) ([''d''] @ [''a.txt'']) = Some (File ''diff a'')"
    by (simp add: merge_eval)
  have al: "copy_allowed (createFilter (template_of quiet_env (Some [''t''])) diff_exclude None)
              [''d''] [''a.txt'']"
    by code_simp
  have np: "\<not> prefix [''x''] ([''d''] @ [''a.txt''])" by simp
  from C1_diff_wins[OF run ht hd al np] ht show ?thesis by (simp add: template_of_def)
qed

section \<open>The manifest that applyTemplateDiff writes\<close>

lemma manifest_at_Inr:
  "readAndParsePackageJson e (dir @ [''package.json'']) w = Inr m \<Longrightarrow> manifest_at e w dir = Some m"
  by (simp add: manifest_at_def)

lemma mergePackageJson_written:
  assumes "mergePackageJson e s x ig f w = (Inr (), w')"
  shows "\<exists>source dest. manifest_at e w s = Some source \<and> manifest_at e w x = Some dest \<and>
           files w' (x @ [''package.json''])
             = Some (File (json_print e (f (merge_manifests ig source dest))))"
  using assms
  by (auto simp: mergePackageJson_def writeFile_def Let_def issue_def manifest_at_def
      split: sum.splits if_splits)

lemma applyTemplateDiff_written:
  assumes "applyTemplateDiff e x d t0 w = (Inr (), w')"
  shows "\<exists>dp tp merged.
           manifest_at e w d = Some dp \<and>
           manifest_at e w (template_of e t0) = Some tp \<and>
           merged_manifest e x d t0 w = Some merged \<and>
           files w' (x @ [''package.json''])
             = Some (File (json_print e (onResult tp (get_diff_options dp) merged)))"
proof -
  from applyTemplateDiff_success[OF assms] obtain dp tp w1 w2 where
    rd: "readAndParsePackageJson e (d @ [''package.json'']) w = Inr dp" and
    rt: "readAndParsePackageJson e (template_of e t0 @ [''package.json'']) w = Inr tp" and
    c1: "copyDirectory e (createFilter (template_of e t0) template_exclude
           (Some (or_empty (skipFiles (get_diff_options dp))))) (template_of e t0) x w
          = (Inr (), w1)" and
    c2: "copyDirectory e (createFilter (template_of e t0) diff_exclude None) d x w1
          = (Inr (), w2)" and
    mg: "mergePackageJson e d x [''h2:diff''] (onResult tp (get_diff_options dp)) w2
           = (Inr (), w')"
    by blast
  have bm: "before_merge e x d t0 w = w2"
    using c1 c2 by (simp add: before_merge_def manifest_at_Inr[OF rd] and_then_def)
  from mergePackageJson_written[OF mg] obtain source dest where
    s: "manifest_at e w2 d = Some source" and de: "manifest_at e w2 x = Some dest" and
    f: "files w' (x @ [''package.json''])
          = Some (File (json_print e (onResult tp (get_diff_options dp)
               (merge_manifests [''h2:diff''] source dest))))"
    by blast
  have "merged_manifest e x d t0 w = Some (merge_manifests [''h2:diff''] source dest)"
    by (simp add: merged_manifest_def bm s de)
  then show ?thesis
    using manifest_at_Inr[OF rd] manifest_at_Inr[OF rt] f by blast
qed

text \<open>
  C4, as the code has it. Let \<open>applyTemplateDiff\<close> complete. Then the manifest it has
  written to the target is the print of the transform of the merged manifest, and for
  each of the keys \<open>build\<close>, \<open>dev\<close> and \<open>preview\<close> whose script in the merged manifest is a
  string, the script of the written manifest is that string without the leftmost
  occurrence of the flag \<open>--diff\<close> and the white space before it, and nothing else is
  removed: a script \<open>pre @ ws @ ''--diff'' @ post\<close>, with \<open>ws\<close> a non-empty run of white
  space and no occurrence starting inside \<open>pre\<close>, becomes \<open>pre @ post\<close>, whatever \<open>post\<close>
  holds; a script without an occurrence stays as it is.
\<close>

theorem C4_first_flag_removed:
  assumes "applyTemplateDiff e x d t0 w = (Inr (), w')"
    and "key \<in> set [''build'', ''dev'', ''preview'']"
  shows "\<exists>dp tp merged.
           manifest_at e w d = Some dp \<and>
           manifest_at e w (template_of e t0) = Some tp \<and>
           merged_manifest e x d t0 w = Some merged \<and>
           files w' (x @ [''package.json''])
             = Some (File (json_print e (onResult tp (get_diff_options dp) merged))) \<and>
           (\<forall>s. script_of merged key = Some (JStr s) \<longrightarrow>
              (\<forall>pre ws post.
                 s = pre @ ws @ ''--diff'' @ post \<and> ws \<noteq> [] \<and> list_all is_space ws \<and>
                 (\<forall>i<length pre. \<not> flag_at (drop i s)) \<longrightarrow>
                 script_of (onResult tp (get_diff_options dp) merged) key
                   = Some (JStr (pre @ post))) \<and>
              (\<not> contains_flag s \<longrightarrow>
                 script_of (onResult tp (get_diff_options dp) merged) key = Some (JStr s)))"
proof -
  from applyTemplateDiff_written[OF assms(1)] obtain dp tp merged where
    h: "manifest_at e w d = Some dp" "manifest_at e w (template_of e t0) = Some tp"
       "merged_manifest e x d t0 w = Some merged"
       "files w' (x @ [''package.json''])
          = Some (File (json_print e (onResult tp (get_diff_options dp) merged)))"
    by blast
  have "\<forall>s. script_of merged key = Some (JStr s) \<longrightarrow>
              (\<forall>pre ws post.
                 s = pre @ ws @ ''--diff'' @ post \<and> ws \<noteq> [] \<and> list_all is_space ws \<and>
                 (\<forall>i<length pre. \<not> flag_at (drop i s)) \<longrightarrow>
                 script_of (onResult tp (get_diff_options dp) merged) key
                   = Some (JStr (pre @ post))) \<and>
              (\<not> contains_flag s \<longrightarrow>
                 script_of (onResult tp (get_diff_options dp) merged) key = Some (JStr s))"
    using transform_strips_first_flag[OF assms(2), of merged _ tp "get_diff_options dp"]
    by blast
  with h show ?thesis by blast
qed

lemmas manifest_eval = merge_world_def merge_files_def with_diff_manifest_def
  with_template_manifest_def quiet_env_def script_env_def version_env_def manifest_parse_def
  fs_lookup_def manifest_at_def readAndParsePackageJson_def template_of_def

text \<open>
  The diff's build script \<open>vite build --diff\<close> is written to the target as
  \<open>vite build\<close>, and the build script \<open>vite build\<close> as it is; the printer of the
  environment writes the build script of a manifest.
\<close>

theorem C4_first_flag_removed_witness:
  "files (snd (applyTemplateDiff script_env [''x''] [''d''] (Some [''t'']) merge_world))
     [''x'', ''package.json''] = Some (File ''vite build'')
   \<and> files (snd (applyTemplateDiff script_env [''x''] [''d''] (Some [''t''])
        (with_diff_manifest ''plain manifest''))) [''x'', ''package.json'']
       = Some (File ''vite build'')"
proof -
  have k: "''build'' \<in> set [''build'', ''dev'', ''preview'']" by simp
  have f: "\<forall>i<length ''vite build''. \<not> flag_at (drop i ''vite build --diff'')"
    by (simp add: flag_at_def is_space_def less_Suc_eq)
  have sp: "list_all is_space '' ''" by (simp add: is_space_def)
  have nf: "\<not> contains_flag ''vite build''" by (simp add: flag_at_def is_space_def)
  have 1: "files (snd (applyTemplateDiff script_env [''x''] [''d''] (Some [''t'']) merge_world))
     [''x'', ''package.json''] = Some (File ''vite build'')"
  proof -
    have ok: "fst (applyTemplateDiff script_env [''x''] [''d''] (Some [''t'']) merge_world)
                = Inr ()"
      by code_simp
    then have run: "applyTemplateDiff script_env [''x''] [''d''] (Some [''t'']) merge_world
        = (Inr (), snd (applyTemplateDiff script_env [''x''] [''d''] (Some [''t''])
             merge_world))"
      by (simp add: prod_eq_iff)
    have ms: "Option.bind (merged_manifest script_env [''x''] [''d''] (Some [''t''])
                 merge_world) (\<lambda>m. script_of m ''build'') = Some (JStr ''vite build --diff'')"
      by code_simp
    from C4_first_flag_removed[OF run k] obtain dp tp merged where
      mm: "merged_manifest script_env [''x''] [''d''] (Some [''t'']) merge_world = Some merged"
      and fl: "files (snd (applyTemplateDiff script_env [''x''] [''d''] (Some [''t''])
                 merge_world)) ([''x''] @ [''package.json''])
            = Some (File (json_print script_env (onResult tp (get_diff_options dp) merged)))"
      and pr: "\<forall>s. script_of merged ''build'' = Some (JStr s) \<longrightarrow>
              (\<forall>pre ws post.
                 s = pre @ ws @ ''--diff'' @ post \<and> ws \<noteq> [] \<and> list_all is_space ws \<and>
                 (\<forall>i<length pre. \<not> flag_at (drop i s)) \<longrightarrow>
                 script_of (onResult tp (get_diff_options dp) merged) ''build''
                   = Some (JStr (pre @ post))) \<and>
              (\<not> contains_flag s \<longrightarrow>
                 script_of (onResult tp (get_diff_options dp) merged) ''build''
                   = Some (JStr s))"
      by blast
    have "script_of merged ''build'' = Some (JStr ''vite build --diff'')"
      using ms mm by simp
    with pr have "''vite build --diff'' = ''vite build'' @ '' '' @ ''--diff'' @ [] \<and>
        '' '' \<noteq> [] \<and> list_all is_space '' '' \<and>
        (\<forall>i<length ''vite build''. \<not> flag_at (drop i ''vite build --diff'')) \<longrightarrow>
        script_of (onResult tp (get_diff_options dp) merged) ''build''
          = Some (JStr (''vite build'' @ []))"
      by blast
    with f sp have "script_of (onResult tp (get_diff_options dp) merged) ''build''
                      = Some (JStr ''vite build'')"
      by simp
    then show ?thesis
      using fl by (simp add: script_env_def quiet_env_def print_build_script_def)
  qed
  have 2: "files (snd (applyTemplateDiff script_env [''x''] [''d''] (Some [''t''])
        (with_diff_manifest ''plain manifest''))) [''x'', ''package.json'']
       = Some (File ''vite build'')"
  proof -
    let ?w = "with_diff_manifest ''plain manifest''"
    have ok: "fst (applyTemplateDiff script_env [''x''] [''d''] (Some [''t'']) ?w) = Inr ()"
      by code_simp
    then have run: "applyTemplateDiff script_env [''x''] [''d''] (Some [''t'']) ?w
        = (Inr (), snd (applyTemplateDiff script_env [''x''] [''d''] (Some [''t'']) ?w))"
      by (simp add: prod_eq_iff)
    have ms: "Option.bind (merged_manifest script_env [''x''] [''d''] (Some [''t'']) ?w)
                 (\<lambda>m. script_of m ''build'') = Some (JStr ''vite build'')"
      by code_simp
    from C4_first_flag_removed[OF run k] obtain dp tp merged where
      mm: "merged_manifest script_env [''x''] [''d''] (Some [''t'']) ?w = Some merged"
      and fl: "files (snd (applyTemplateDiff script_env [''x''] [''d''] (Some [''t'']) ?w))
                 ([''x''] @ [''package.json''])
            = Some (File (json_print script_env (onResult tp (get_diff_options dp) merged)))"
      and pr: "\<forall>s. script_of merged ''build'' = Some (JStr s) \<longrightarrow>
              (\<forall>pre ws post.
                 s = pre @ ws @ ''--diff'' @ post \<and> ws \<noteq> [] \<and> list_all is_space ws \<and>
                 (\<forall>i<length pre. \<not> flag_at (drop i s)) \<longrightarrow>
                 script_of (onResult tp (get_diff_options dp) merged) ''build''
                   = Some (JStr (pre @ post))) \<and>
              (\<not> contains_flag s \<longrightarrow>
                 script_of (onResult tp (get_diff_options dp) merged) ''build''
                   = Some (JStr s))"
      by blast
    have "script_of merged ''build'' = Some (JStr ''vite build'')"
      using ms mm by simp
    with pr nf have "script_of (onResult tp (get_diff_options dp) merged) ''build''
                      = Some (JStr ''vite build'')"
      by blast
    then show ?thesis
      using fl by (simp add: script_env_def quiet_env_def print_build_script_def)
  qed
  from 1 2 show ?thesis by simp
qed

text \<open>
  C4 as the claim states it fails: the diff's build script has the flag twice, and the
  build script of the manifest written to the target keeps the second occurrence.
\<close>

theorem C4_every_occurrence_counterexample:
  "fst (applyTemplateDiff script_env [''x''] [''d''] (Some [''t''])
          (with_diff_manifest ''two flags manifest'')) = Inr ()
   \<and> Option.bind (merged_manifest script_env [''x''] [''d''] (Some [''t''])
          (with_diff_manifest ''two flags manifest'')) (\<lambda>m. script_of m ''build'')
       = Some (JStr ''vite build --diff --diff'')
   \<and> files (snd (applyTemplateDiff script_env [''x''] [''d''] (Some [''t''])
          (with_diff_manifest ''two flags manifest''))) [''x'', ''package.json'']
       = Some (File ''vite build --diff'')
   \<and> contains_flag ''vite build --diff''"
proof -
  have 1: "fst (applyTemplateDiff script_env [''x''] [''d''] (Some [''t''])
          (with_diff_manifest ''two flags manifest'')) = Inr ()"
    by code_simp
  have 2: "Option.bind (merged_manifest script_env [''x''] [''d''] (Some [''t''])
          (with_diff_manifest ''two flags manifest'')) (\<lambda>m. script_of m ''build'')
       = Some (JStr ''vite build --diff --diff'')"
    by code_simp
  have 3: "files (snd (applyTemplateDiff script_env [''x''] [''d''] (Some [''t''])
          (with_diff_manifest ''two flags manifest''))) [''x'', ''package.json'']
       = Some (File ''vite build --diff'')"
    by code_simp
  have 4: "contains_flag ''vite build --diff''" by code_simp
  from 1 2 3 4 show ?thesis by simp
qed

text \<open>
  C5, as the code has it. Let \<open>applyTemplateDiff\<close> complete, in a world where the
  template's manifest \<open>tp\<close> has a dependencies object and the diff options of the diff's
  manifest \<open>dp\<close> do not name the package \<open>@shopify/cli-hydrogen\<close> in \<open>skipDependencies\<close>.
  Then the manifest written to the target is the print of the transform of the merged
  manifest, and when the merged manifest has a dependencies object, the entry of the
  package in the written manifest is the version the template declares, or \<open>*\<close> when
  the template's dependencies declare none (or declare \<open>null\<close>).
\<close>

theorem C5_cli_version_restored:
  assumes "applyTemplateDiff e x d t0 w = (Inr (), w')"
    and "manifest_at e w d = Some dp"
    and "manifest_at e w (template_of e t0) = Some tp"
    and "dependencies tp = Some tdeps"
    and "cli_hydrogen \<notin> set (or_empty (skipDependencies (get_diff_options dp)))"
  shows "\<exists>merged.
           merged_manifest e x d t0 w = Some merged \<and>
           files w' (x @ [''package.json''])
             = Some (File (json_print e (onResult tp (get_diff_options dp) merged))) \<and>
           (dependencies merged \<noteq> None \<longrightarrow>
              (\<forall>v. tdeps cli_hydrogen = Some v \<and> v \<noteq> JNull \<longrightarrow>
                 dependency_of (onResult tp (get_diff_options dp) merged) cli_hydrogen
                   = Some v) \<and>
              (tdeps cli_hydrogen = None \<or> tdeps cli_hydrogen = Some JNull \<longrightarrow>
                 dependency_of (onResult tp (get_diff_options dp) merged) cli_hydrogen
                   = Some (JStr ''*'')))"
proof -
  from applyTemplateDiff_written[OF assms(1)] assms(2,3) obtain merged where
    h: "merged_manifest e x d t0 w = Some merged"
       "files w' (x @ [''package.json''])
          = Some (File (json_print e (onResult tp (get_diff_options dp) merged)))"
    by auto
  have "dependencies merged \<noteq> None \<longrightarrow>
              (\<forall>v. tdeps cli_hydrogen = Some v \<and> v \<noteq> JNull \<longrightarrow>
                 dependency_of (onResult tp (get_diff_options dp) merged) cli_hydrogen
                   = Some v) \<and>
              (tdeps cli_hydrogen = None \<or> tdeps cli_hydrogen = Some JNull \<longrightarrow>
                 dependency_of (onResult tp (get_diff_options dp) merged) cli_hydrogen
                   = Some (JStr ''*''))"
  proof
    assume "dependencies merged \<noteq> None"
    then obtain deps where "dependencies merged = Some deps" by auto
    from transform_restores_cli_version[OF this assms(4,5)]
    show "(\<forall>v. tdeps cli_hydrogen = Some v \<and> v \<noteq> JNull \<longrightarrow>
                 dependency_of (onResult tp (get_diff_options dp) merged) cli_hydrogen
                   = Some v) \<and>
              (tdeps cli_hydrogen = None \<or> tdeps cli_hydrogen = Some JNull \<longrightarrow>
                 dependency_of (onResult tp (get_diff_options dp) merged) cli_hydrogen
                   = Some (JStr ''*''))"
      by blast
  qed
  with h show ?thesis by blast
qed

text \<open>
  A template that declares the version \<open>^3.0.0\<close>, and a template whose dependencies do
  not declare one; the printer of the environment writes the version that a manifest has
  for the package.
\<close>

theorem C5_cli_version_restored_witness:
  "files (snd (applyTemplateDiff version_env [''x''] [''d''] (Some [''t'']) merge_world))
     [''x'', ''package.json''] = Some (File ''^3.0.0'')
   \<and> files (snd (applyTemplateDiff version_env [''x''] [''d''] (Some [''t''])
        (with_template_manifest ''unpinned manifest''))) [''x'', ''package.json'']
       = Some (File ''*'')"
proof -
  have ns: "cli_hydrogen \<notin> set (or_empty (skipDependencies (get_diff_options diff_manifest)))"
    by (simp add: diff_manifest_def with_dependencies_def no_manifest_def get_diff_options_def
        no_options_def or_empty_def)
  have 1: "files (snd (applyTemplateDiff version_env [''x''] [''d''] (Some [''t''])
             merge_world)) [''x'', ''package.json''] = Some (File ''^3.0.0'')"
  proof -
    have ok: "fst (applyTemplateDiff version_env [''x''] [''d''] (Some [''t'']) merge_world)
                = Inr ()"
      by code_simp
    then have run: "applyTemplateDiff version_env [''x''] [''d''] (Some [''t'']) merge_world
        = (Inr (), snd (applyTemplateDiff version_env [''x''] [''d''] (Some [''t''])
             merge_world))"
      by (simp add: prod_eq_iff)
    have md: "manifest_at version_env merge_world [''d''] = Some diff_manifest"
      by (simp add: manifest_eval)
    have mt: "manifest_at version_env merge_world (template_of version_env (Some [''t'']))
                = Some template_manifest"
      by (simp add: manifest_eval)
    have td: "dependencies template_manifest = Some [cli_hydrogen \<mapsto> JStr ''^3.0.0'']"
      by (simp add: template_manifest_def with_dependencies_def no_manifest_def)
    have hd: "Option.bind (merged_manifest version_env [''x''] [''d''] (Some [''t''])
                 merge_world) (\<lambda>m. dependency_of m ''a'') = Some (JStr ''1.0.0'')"
      by code_simp
    from C5_cli_version_restored[OF run md mt td ns] obtain merged where
      mm: "merged_manifest version_env [''x''] [''d''] (Some [''t'']) merge_world = Some merged"
      and fl: "files (snd (applyTemplateDiff version_env [''x''] [''d''] (Some [''t''])
                 merge_world)) ([''x''] @ [''package.json''])
            = Some (File (json_print version_env
                (onResult template_manifest (get_diff_options diff_manifest) merged)))"
      and pr: "dependencies merged \<noteq> None \<longrightarrow>
              (\<forall>v. [cli_hydrogen \<mapsto> JStr ''^3.0.0''] cli_hydrogen = Some v \<and> v \<noteq> JNull \<longrightarrow>
                 dependency_of (onResult template_manifest (get_diff_options diff_manifest)
                   merged) cli_hydrogen = Some v) \<and>
              ([cli_hydrogen \<mapsto> JStr ''^3.0.0''] cli_hydrogen = None \<or>
               [cli_hydrogen \<mapsto> JStr ''^3.0.0''] cli_hydrogen = Some JNull \<longrightarrow>
                 dependency_of (onResult template_manifest (get_diff_options diff_manifest)
                   merged) cli_hydrogen = Some (JStr ''*''))"
      by blast
    have "dependencies merged \<noteq> None"
      using hd mm by (auto simp: dependency_of_def split: option.splits)
    with pr have "dependency_of (onResult template_manifest (get_diff_options diff_manifest)
                   merged) cli_hydrogen = Some (JStr ''^3.0.0'')"
      by simp
    then show ?thesis
      using fl by (simp add: version_env_def quiet_env_def print_cli_version_def)
  qed
  have 2: "files (snd (applyTemplateDiff version_env [''x''] [''d''] (Some [''t''])
        (with_template_manifest ''unpinned manifest''))) [''x'', ''package.json'']
       = Some (File ''*'')"
  proof -
    let ?w = "with_template_manifest ''unpinned manifest''"
    have ok: "fst (applyTemplateDiff version_env [''x''] [''d''] (Some [''t'']) ?w) = Inr ()"
      by code_simp
    then have run: "applyTemplateDiff version_env [''x''] [''d''] (Some [''t'']) ?w
        = (Inr (), snd (applyTemplateDiff version_env [''x''] [''d''] (Some [''t'']) ?w))"
      by (simp add: prod_eq_iff)
    have md: "manifest_at version_env ?w [''d''] = Some diff_manifest"
      by (simp add: manifest_eval)
    have mt: "manifest_at version_env ?w (template_of version_env (Some [''t'']))
                = Some unpinned_manifest"
      by (simp add: manifest_eval)
    have td: "dependencies unpinned_manifest = Some [''b'' \<mapsto> JStr ''2.0.0'']"
      by (simp add: unpinned_manifest_def with_dependencies_def no_manifest_def)
    have hd: "Option.bind (merged_manifest version_env [''x''] [''d''] (Some [''t'']) ?w)
                 (\<lambda>m. dependency_of m ''a'') = Some (JStr ''1.0.0'')"
      by code_simp
    from C5_cli_version_restored[OF run md mt td ns] obtain merged where
      mm: "merged_manifest version_env [''x''] [''d''] (Some [''t'']) ?w = Some merged"
      and fl: "files (snd (applyTemplateDiff version_env [''x''] [''d''] (Some [''t'']) ?w))
                 ([''x''] @ [''package.json''])
            = Some (File (json_print version_env
                (onResult unpinned_manifest (get_diff_options diff_manifest) merged)))"
      and pr: "dependencies merged \<noteq> None \<longrightarrow>
              (\<forall>v. [''b'' \<mapsto> JStr ''2.0.0''] cli_hydrogen = Some v \<and> v \<noteq> JNull \<longrightarrow>
                 dependency_of (onResult unpinned_manifest (get_diff_options diff_manifest)
                   merged) cli_hydrogen = Some v) \<and>
              ([''b'' \<mapsto> JStr ''2.0.0''] cli_hydrogen = None \<or>
               [''b'' \<mapsto> JStr ''2.0.0''] cli_hydrogen = Some JNull \<longrightarrow>
                 dependency_of (onResult unpinned_manifest (get_diff_options diff_manifest)
                   merged) cli_hydrogen = Some (JStr ''*''))"
      by blast
    have "dependencies merged \<noteq> None"
      using hd mm by (auto simp: dependency_of_def split: option.splits)
    with pr have "dependency_of (onResult unpinned_manifest (get_diff_options diff_manifest)
                   merged) cli_hydrogen = Some (JStr ''*'')"
      by (simp add: cli_hydrogen_def)
    then show ?thesis
      using fl by (simp add: version_env_def quiet_env_def print_cli_version_def)
  qed
  from 1 2 show ?thesis by simp
qed

text \<open>
  C5 as the claim states it fails: the template's manifest has no dependencies object
  and so declares no version, the merged manifest has a dependencies object (with the
  diff's dependency \<open>a\<close>), and the manifest written to the target has no entry for the
  package instead of the wildcard.
\<close>

theorem C5_template_without_dependencies_counterexample:
  "fst (applyTemplateDiff version_env [''x''] [''d''] (Some [''t''])
          (with_template_manifest ''bare manifest'')) = Inr ()
   \<and> Option.bind (merged_manifest version_env [''x''] [''d''] (Some [''t''])
          (with_template_manifest ''bare manifest'')) (\<lambda>m. dependency_of m ''a'')
       = Some (JStr ''1.0.0'')
   \<and> files (snd (applyTemplateDiff version_env [''x''] [''d''] (Some [''t''])
          (with_template_manifest ''bare manifest''))) [''x'', ''package.json'']
       = Some (File ''no entry'')"
proof -
  have 1: "fst (applyTemplateDiff version_env [''x''] [''d''] (Some [''t''])
          (with_template_manifest ''bare manifest'')) = Inr ()"
    by code_simp
  have 2: "Option.bind (merged_manifest version_env [''x''] [''d''] (Some [''t''])
          (with_template_manifest ''bare manifest'')) (\<lambda>m. dependency_of m ''a'')
       = Some (JStr ''1.0.0'')"
    by code_simp
  have 3: "files (snd (applyTemplateDiff version_env [''x''] [''d''] (Some [''t''])
          (with_template_manifest ''bare manifest''))) [''x'', ''package.json'']
       = Some (File ''no entry'')"
    by code_simp
  from 1 2 3 show ?thesis by simp
qed

section \<open>The dot before turbo\<close>

lemma diff_dot_any: "\<not> is_line_terminator c \<Longrightarrow> re_test diff_exclude (c # ''turbo'')"
  by (simp add: re_test_def diff_exclude_def alt_here_def lit_def seg_end_def canonicalize_def)

lemma template_dot_literal: "re_test template_exclude (c # ''turbo'') \<longleftrightarrow> c = CHR ''.''"
  by (auto simp add: re_test_def template_exclude_def alt_here_def lit_def seg_end_def
      canonicalize_def is_sep_def split: if_splits)

text \<open>
  C10. The expression of the diff pass matches a name made of any one character that
  is not a line terminator followed by \<open>turbo\<close>, while the expression of the template
  pass matches such a name only when the character is the dot. So in the example world
  the directory \<open>xturbo\<close> of the template is copied to the target, and the file in the
  directory \<open>xturbo\<close> of the diff is not.
\<close>

theorem C10_unescaped_dot:
  "(\<forall>c. \<not> is_line_terminator c \<longrightarrow> re_test diff_exclude (c # ''turbo''))
   \<and> (\<forall>c. re_test template_exclude (c # ''turbo'') = (c = CHR ''.''))
   \<and> fst (applyTemplateDiff quiet_env [''x''] [''d''] (Some [''t'']) merge_world) = Inr ()
   \<and> fs_lookup (files merge_world) [''d'', ''xturbo'', ''d.txt''] = Some (File ''lost'')
   \<and> files (snd (applyTemplateDiff quiet_env [''x''] [''d''] (Some [''t'']) merge_world))
        [''x'', ''xturbo'', ''d.txt''] = None
   \<and> files (snd (applyTemplateDiff quiet_env [''x''] [''d''] (Some [''t'']) merge_world))
        [''x'', ''xturbo'', ''t.txt''] = Some (File ''kept'')"
proof -
  have 1: "fst (applyTemplateDiff quiet_env [''x''] [''d''] (Some [''t'']) merge_world) = Inr ()"
    by code_simp
  have 2: "fs_lookup (files merge_world) [''d'', ''xturbo'', ''d.txt''] = Some (File ''lost'')"
    by code_simp
  have 3: "files (snd (applyTemplateDiff quiet_env [''x''] [''d''] (Some [''t'']) merge_world))
        [''x'', ''xturbo'', ''d.txt''] = None"
    by code_simp
  have 4: "files (snd (applyTemplateDiff quiet_env [''x''] [''d''] (Some [''t'']) merge_world))
        [''x'', ''xturbo'', ''t.txt''] = Some (File ''kept'')"
    by code_simp
  from 1 2 3 4 diff_dot_any template_dot_literal show ?thesis by blast
qed

text \<open>The name \<open>xturbo\<close>.\<close>

theorem C10_unescaped_dot_witness:
  "re_test diff_exclude ''xturbo'' \<and> \<not> re_test template_exclude ''xturbo''"
proof -
  have "\<not> is_line_terminator CHR ''x''" by (simp add: is_line_terminator_def)
  with C10_unescaped_dot show ?thesis by auto
qed

end
